theory Spec2Isabelle
  imports Main
begin

section \<open>Strings\<close>

text \<open>
  Python's \<^verbatim>\<open>s.startswith(p)\<close>, \<^verbatim>\<open>sep.join(xs)\<close>, \<^verbatim>\<open>s.upper()\<close> and
  \<^verbatim>\<open>s.capitalize()\<close> on ASCII text. \<^verbatim>\<open>capitalize\<close> upper-cases the first
  character and lower-cases all the others.
\<close>

definition startswith :: "string \<Rightarrow> string \<Rightarrow> bool" where
  "startswith s p = (take (length p) s = p)"

fun str_join :: "string \<Rightarrow> string list \<Rightarrow> string" where
  "str_join sep [] = []"
| "str_join sep [x] = x"
| "str_join sep (x # y # ys) = x @ sep @ str_join sep (y # ys)"

definition upper_char :: "char \<Rightarrow> char" where
  "upper_char c =
     (case map_of (zip ''abcdefghijklmnopqrstuvwxyz'' ''ABCDEFGHIJKLMNOPQRSTUVWXYZ'') c of
        Some u \<Rightarrow> u
      | None \<Rightarrow> c)"

definition lower_char :: "char \<Rightarrow> char" where
  "lower_char c =
     (case map_of (zip ''ABCDEFGHIJKLMNOPQRSTUVWXYZ'' ''abcdefghijklmnopqrstuvwxyz'') c of
        Some l \<Rightarrow> l
      | None \<Rightarrow> c)"

definition upper :: "string \<Rightarrow> string" where
  "upper s = map upper_char s"

definition capitalize :: "string \<Rightarrow> string" where
  "capitalize s = (case s of [] \<Rightarrow> [] | c # cs \<Rightarrow> upper_char c # map lower_char cs)"

section \<open>Exceptions\<close>

text \<open>
  The exceptions the dispatch code raises, catches or lets through. \<open>CallError code msg\<close>
  is \<^verbatim>\<open>CallError(RuntimeError)\<close> of \<^verbatim>\<open>call.py\<close>. \<open>OtherException\<close> stands for any other
  subclass of \<^verbatim>\<open>Exception\<close>; \<open>NonException\<close> stands for what Python raises outside that
  hierarchy (\<^verbatim>\<open>SystemExit\<close>, \<^verbatim>\<open>KeyboardInterrupt\<close>, \<^verbatim>\<open>GeneratorExit\<close>), which an
  \<^verbatim>\<open>except Exception\<close> clause does not catch.
\<close>

datatype exc =
    ImportError string
  | AttributeError string
  | ValueError string
  | TypeError string
  | NameError string
  | IndexError string
  | CallError nat string
  | VersionError "string option" "string list"
  | OtherException string
  | NonException string

fun is_ImportError :: "exc \<Rightarrow> bool" where
  "is_ImportError (ImportError m) = True"
| "is_ImportError e = False"

fun is_AttributeError :: "exc \<Rightarrow> bool" where
  "is_AttributeError (AttributeError m) = True"
| "is_AttributeError e = False"

fun is_Exception :: "exc \<Rightarrow> bool" where
  "is_Exception (NonException m) = False"
| "is_Exception e = True"

fun message :: "exc \<Rightarrow> string" where
  "message (ImportError m) = m"
| "message (AttributeError m) = m"
| "message (ValueError m) = m"
| "message (TypeError m) = m"
| "message (NameError m) = m"
| "message (IndexError m) = m"
| "message (CallError c m) = m"
| "message (VersionError v vs) = (case v of None \<Rightarrow> [] | Some s \<Rightarrow> s)"
| "message (OtherException m) = m"
| "message (NonException m) = m"

section \<open>Request, response and the objects of a controller module\<close>

record request =
  req_method :: string
  req_path :: string
  path_args :: "string list"
  query_kwargs :: "(string \<times> string) list"
  req_headers :: "string \<rightharpoonup> string"

datatype body = NoBody | ReturnValue string | ErrorBody exc

record response =
  res_code :: nat
  res_headers :: "string \<rightharpoonup> string"
  res_body :: body

text \<open>
  A bound controller method: called with the positional and keyword arguments, it returns
  a value or raises, and may write to the response it shares with the call.
\<close>

type_synonym callback =
  "string list \<Rightarrow> (string \<times> string) list \<Rightarrow> response \<Rightarrow> (exc + string) \<times> response"

text \<open>
  What a module attribute can be. \<open>PyClass handler construct\<close> is something callable with
  \<^verbatim>\<open>(request, response)\<close>: \<open>construct\<close> is what the call does (it yields the attributes of
  the new object, by name, or raises), and \<open>handler\<close> tells whether the object is a
  controller (handler) of the framework. \<open>PyOther\<close> is any attribute that cannot be called.
\<close>

datatype pyobj =
    PyClass (handler: bool)
      (construct: "request \<Rightarrow> response \<Rightarrow> (exc + (string \<rightharpoonup> callback)) \<times> response")
  | PyOther

fun call_object ::
  "pyobj \<Rightarrow> request \<Rightarrow> response \<Rightarrow> (exc + (string \<rightharpoonup> callback)) \<times> response" where
  "call_object (PyClass h c) req res = c req res"
| "call_object PyOther req res = (Inl (TypeError ''object is not callable''), res)"

record pymodule =
  mod_file_dir :: string
  mod_attrs :: "string \<rightharpoonup> pyobj"

section \<open>The file system and the interpreter around a call\<close>

datatype fsnode = File string | Dir string "fsnode list"

text \<open>
  A media type of \<^verbatim>\<open>AcceptHeader\<close>: \<^verbatim>\<open>mt[2]\<close> is the dictionary of its parameters.
\<close>

type_synonym media_type = "string \<times> string \<times> (string \<rightharpoonup> string)"

text \<open>
  What the code reads from outside: \<open>import_module\<close> is \<^verbatim>\<open>importlib.import_module\<close>
  (a module or the exception the import raised), \<open>os_tree path\<close> the entries below a
  directory as \<^verbatim>\<open>os.walk\<close> finds them, and \<open>accept_filter header content_type\<close> is
  \<^verbatim>\<open>AcceptHeader(header).filter(content_type)\<close> of \<^verbatim>\<open>utils.py\<close>, the media types of the
  header that are compatible with the content type, in the order they are yielded.
\<close>

record env =
  import_module :: "string \<Rightarrow> exc + pymodule"
  os_tree :: "string \<Rightarrow> fsnode list"
  accept_filter :: "string \<Rightarrow> string \<Rightarrow> media_type list"

text \<open>
  The mutable state of the process: \<^verbatim>\<open>_module_cache\<close> maps a prefix to the set object
  cached for it. Set objects live in a store, so that two results can be the same object.
\<close>

record pystate =
  module_cache :: "string \<rightharpoonup> nat"
  heap :: "nat \<Rightarrow> string set"
  next_ref :: nat

section \<open>get_controllers\<close>

definition fnmatch_py :: "string \<Rightarrow> bool" where
  "fnmatch_py f = (3 \<le> length f \<and> drop (length f - 3) f = ''.py'')"

text \<open>
  \<^verbatim>\<open>os.path.splitext(f)[0]\<close> for a name that ends in \<^verbatim>\<open>.py\<close>: the name without the
  extension, unless only dots come before the last dot (then the whole name is the root).
\<close>

definition splitext_root :: "string \<Rightarrow> string" where
  "splitext_root f =
     (let stem = take (length f - 3) f in
      if list_all (\<lambda>c. c = CHR ''.'') stem then f else stem)"

text \<open>
  The pruning line \<^verbatim>\<open>dirs[:] = [d for d in dirs if d[0] != '.' or d[0] != '_']\<close>;
  \<^verbatim>\<open>d[0]\<close> of an empty name raises.
\<close>

fun prune_dirs :: "string list \<Rightarrow> exc + string list" where
  "prune_dirs [] = Inr []"
| "prune_dirs (d # ds) =
     (case d of
        [] \<Rightarrow> Inl (IndexError ''string index out of range'')
      | c # cs \<Rightarrow>
          (case prune_dirs ds of
             Inl e \<Rightarrow> Inl e
           | Inr ds' \<Rightarrow> Inr (if c \<noteq> CHR ''.'' \<or> c \<noteq> CHR ''_'' then d # ds' else ds')))"

fun dirnames :: "fsnode list \<Rightarrow> string list" where
  "dirnames [] = []"
| "dirnames (File f # es) = dirnames es"
| "dirnames (Dir d sub # es) = d # dirnames es"

fun filenames :: "fsnode list \<Rightarrow> string list" where
  "filenames [] = []"
| "filenames (File f # es) = f # filenames es"
| "filenames (Dir d sub # es) = filenames es"

text \<open>
  The inner loop over \<^verbatim>\<open>fnmatch.filter(files, '*.py')\<close>: the names it adds to
  \<^verbatim>\<open>modules\<close>, for the directory whose dotted name is \<open>module_name\<close>.
\<close>

fun add_files :: "string list \<Rightarrow> string list \<Rightarrow> string set \<Rightarrow> string set" where
  "add_files module_name [] modules = modules"
| "add_files module_name (f # fs) modules =
     (if fnmatch_py f then
        (if startswith f ''__init__'' then
           add_files module_name fs (insert (str_join ''.'' module_name) modules)
         else if \<not> startswith f ''_'' then
           add_files module_name fs
             (insert (str_join ''.'' (module_name @ [splitext_root f])) modules)
         else add_files module_name fs modules)
      else add_files module_name fs modules)"

text \<open>
  The loop over \<^verbatim>\<open>os.walk(basedir, topdown=True)\<close>. \<open>root\<close> is the walked directory as
  its path components below \<^verbatim>\<open>basedir\<close> (what \<^verbatim>\<open>root.replace(basedir, '', 1).split('/')\<close>
  leaves after \<^verbatim>\<open>filter(None, ...)\<close>). \<open>walk_dir\<close> is one iteration on a directory, followed
  by the walk of the subdirectories that are still in \<^verbatim>\<open>dirs\<close> after the pruning line.
\<close>

fun walk_dir :: "string \<Rightarrow> string list \<Rightarrow> fsnode list \<Rightarrow> string set \<Rightarrow> exc + string set"
  and walk_subdirs ::
    "string \<Rightarrow> string list \<Rightarrow> string list \<Rightarrow> fsnode list \<Rightarrow> string set \<Rightarrow> exc + string set"
  where
  "walk_dir controller_prefix root entries modules =
     (case prune_dirs (dirnames entries) of
        Inl e \<Rightarrow> Inl e
      | Inr dirs \<Rightarrow>
          walk_subdirs controller_prefix root dirs entries
            (add_files (controller_prefix # root) (filenames entries) modules))"
| "walk_subdirs controller_prefix root dirs [] modules = Inr modules"
| "walk_subdirs controller_prefix root dirs (File f # es) modules =
     walk_subdirs controller_prefix root dirs es modules"
| "walk_subdirs controller_prefix root dirs (Dir d sub # es) modules =
     (if d \<in> set dirs then
        (case walk_dir controller_prefix (root @ [d]) sub modules of
           Inl e \<Rightarrow> Inl e
         | Inr modules' \<Rightarrow> walk_subdirs controller_prefix root dirs es modules')
      else walk_subdirs controller_prefix root dirs es modules)"

definition get_controllers :: "env \<Rightarrow> pystate \<Rightarrow> string \<Rightarrow> (exc + nat) \<times> pystate" where
  "get_controllers ev s controller_prefix =
     (if controller_prefix = [] then (Inl (ValueError ''controller prefix is empty''), s)
      else
        (case module_cache s controller_prefix of
           Some r \<Rightarrow> (Inr r, s)
         | None \<Rightarrow>
             (case import_module ev controller_prefix of
                Inl e \<Rightarrow> (Inl e, s)
              | Inr m \<Rightarrow>
                  (case walk_dir controller_prefix [] (os_tree ev (mod_file_dir m)) {} of
                     Inl e \<Rightarrow> (Inl e, s)
                   | Inr modules \<Rightarrow>
                       (Inr (next_ref s),
                        s\<lparr>module_cache := (module_cache s)(controller_prefix \<mapsto> next_ref s),
                          heap := (heap s)(next_ref s := modules),
                          next_ref := Suc (next_ref s)\<rparr>)))))"

section \<open>Call and VersionCall\<close>

datatype call_kind = Call | VersionCall

text \<open>
  A \<^verbatim>\<open>Call\<close> object with the request and response it holds. \<open>default_version\<close> is the
  attribute of \<^verbatim>\<open>VersionCall\<close> (\<open>None\<close> when it is not set); an empty \<open>content_type\<close>
  stands for any falsy content type.
\<close>

record call =
  kind :: call_kind
  controller_prefix :: string
  content_type :: string
  default_version :: "string option"
  request :: request
  response :: response

text \<open>The dictionary \<^verbatim>\<open>d\<close> that the controller-info methods return.\<close>

record info =
  d_module_name :: string
  d_class_name :: string
  d_module :: pymodule
  d_class :: pyobj
  d_method :: string
  d_args :: "string list"
  d_kwargs :: "(string \<times> string) list"

definition truthy :: "string option \<Rightarrow> bool" where
  "truthy v = (case v of None \<Rightarrow> False | Some s \<Rightarrow> s \<noteq> [])"

text \<open>
  The loop \<^verbatim>\<open>for mt in a.filter(self.content_type)\<close> of \<^verbatim>\<open>get_version\<close>: \<open>v\<close> is the
  variable it assigns, and it breaks at the first truthy version.
\<close>

fun version_loop :: "string option \<Rightarrow> media_type list \<Rightarrow> string option" where
  "version_loop v [] = v"
| "version_loop v (mt # mts) =
     (let v' = (snd (snd mt)) ''version'' in
      if truthy v' then v' else version_loop v' mts)"

definition get_version :: "env \<Rightarrow> call \<Rightarrow> exc + string" where
  "get_version ev c =
     (if content_type c = [] then
        Inl (ValueError ''You are versioning a call with no content_type'')
      else
        (let accept_header =
               (case req_headers (request c) ''accept'' of None \<Rightarrow> [] | Some h \<Rightarrow> h);
             v = (if accept_header \<noteq> []
                  then version_loop None (accept_filter ev accept_header (content_type c))
                  else None)
         in
           if \<not> truthy v then
             (case default_version c of
                None \<Rightarrow>
                  Inl (CallError 406
                    (''Expected accept header with '' @ content_type c @
                     '';version=N media type''))
              | Some dv \<Rightarrow>
                  if dv = [] then
                    Inl (CallError 406
                      (''Expected accept header with '' @ content_type c @
                       '';version=N media type''))
                  else Inr dv)
           else (case v of Some s \<Rightarrow> Inr s | None \<Rightarrow> Inr [])))"

definition get_normalized_prefix :: "env \<Rightarrow> call \<Rightarrow> exc + string" where
  "get_normalized_prefix ev c =
     (case kind c of
        Call \<Rightarrow> Inr (controller_prefix c)
      | VersionCall \<Rightarrow>
          (case get_version ev c of
             Inl e \<Rightarrow> Inl e
           | Inr v \<Rightarrow>
               Inr (if controller_prefix c \<noteq> [] then controller_prefix c @ ''.'' @ v else v)))"

definition getattr_module :: "pymodule \<Rightarrow> string \<Rightarrow> exc + pyobj" where
  "getattr_module m name =
     (case mod_attrs m name of
        None \<Rightarrow> Inl (AttributeError (''module object has no attribute '' @ name))
      | Some obj \<Rightarrow> Inr obj)"

definition get_controller_info_simple :: "env \<Rightarrow> call \<Rightarrow> exc + info" where
  "get_controller_info_simple ev c =
     (let req = request c in
      case (case path_args req of
              [] \<Rightarrow> Inr (''default'', [])
            | module_name # rest \<Rightarrow>
                if startswith module_name ''_''
                then Inl (ValueError (module_name @ '' is an invalid''))
                else Inr (module_name, rest)) of
        Inl e \<Rightarrow> Inl e
      | Inr (module_name, path_args1) \<Rightarrow>
          (case get_normalized_prefix ev c of
             Inl e \<Rightarrow> Inl e
           | Inr prefix \<Rightarrow>
               (let module_name' =
                      (if prefix \<noteq> [] then str_join ''.'' [prefix, module_name]
                       else module_name)
                in
                  case (case path_args1 of
                          [] \<Rightarrow> Inr (''Default'', [])
                        | class_name # rest \<Rightarrow>
                            if startswith class_name ''_''
                            then Inl (ValueError (class_name @ '' is invalid''))
                            else Inr (capitalize class_name, rest)) of
                    Inl e \<Rightarrow> Inl e
                  | Inr (class_name, path_args2) \<Rightarrow>
                      (case import_module ev module_name' of
                         Inl e \<Rightarrow> Inl e
                       | Inr m \<Rightarrow>
                           (case getattr_module m class_name of
                              Inl e \<Rightarrow> Inl e
                            | Inr cls \<Rightarrow>
                                Inr \<lparr>d_module_name = module_name',
                                     d_class_name = class_name,
                                     d_module = m,
                                     d_class = cls,
                                     d_method = upper (req_method req),
                                     d_args = path_args2,
                                     d_kwargs = query_kwargs req\<rparr>)))))"

text \<open>
  The loop \<^verbatim>\<open>while path_args\<close> of \<^verbatim>\<open>get_controller_info_advanced\<close>, with its three
  variables; it returns \<open>module_name\<close> and what is left of \<open>path_args\<close>.
\<close>

fun module_walk :: "string set \<Rightarrow> string \<Rightarrow> string \<Rightarrow> string list \<Rightarrow> string \<times> string list" where
  "module_walk cset module_name mod_name [] = (module_name, [])"
| "module_walk cset module_name mod_name (p # ps) =
     (let mod_name' = mod_name @ ''.'' @ p in
      if mod_name' \<in> cset then module_walk cset mod_name' mod_name' ps
      else (module_name, p # ps))"

definition get_controller_info_advanced ::
  "env \<Rightarrow> call \<Rightarrow> pystate \<Rightarrow> (exc + info) \<times> pystate" where
  "get_controller_info_advanced ev c s =
     (let req = request c in
      case get_normalized_prefix ev c of
        Inl e \<Rightarrow> (Inl e, s)
      | Inr prefix \<Rightarrow>
          (case get_controllers ev s prefix of
             (Inl e, s') \<Rightarrow> (Inl e, s')
           | (Inr r, s') \<Rightarrow>
               (case module_walk (heap s' r) prefix prefix (path_args req) of
                  (module_name, path_args1) \<Rightarrow>
                    (case import_module ev module_name of
                       Inl e \<Rightarrow> (Inl e, s')
                     | Inr m \<Rightarrow>
                         (case (case path_args1 of
                                  [] \<Rightarrow> (''Default'', [])
                                | p # ps \<Rightarrow>
                                    if mod_attrs m (capitalize p) \<noteq> None
                                    then (capitalize p, ps)
                                    else (''Default'', p # ps)) of
                            (class_name, path_args2) \<Rightarrow>
                              (case getattr_module m class_name of
                                 Inl e \<Rightarrow> (Inl e, s')
                               | Inr cls \<Rightarrow>
                                   (Inr \<lparr>d_module_name = module_name,
                                         d_class_name = class_name,
                                         d_module = m,
                                         d_class = cls,
                                         d_method = upper (req_method req),
                                         d_args = path_args2,
                                         d_kwargs = query_kwargs req\<rparr>, s')))))))"

definition get_controller_info :: "env \<Rightarrow> call \<Rightarrow> pystate \<Rightarrow> (exc + info) \<times> pystate" where
  "get_controller_info ev c s = get_controller_info_advanced ev c s"

text \<open>
  \<^verbatim>\<open>get_callback_info\<close>: the outcome, the response (the constructor of the controller
  receives it and may write to it) and the state.
\<close>

definition get_callback_info ::
  "env \<Rightarrow> call \<Rightarrow> pystate \<Rightarrow>
   (exc + callback \<times> string list \<times> (string \<times> string) list) \<times> response \<times> pystate" where
  "get_callback_info ev c s =
     (let r = request c in
      case get_controller_info ev c s of
        (Inl e, s') \<Rightarrow>
          (if is_ImportError e \<or> is_AttributeError e then
             (Inl (CallError 404 (req_path r @ '' not found because of error: '' @ message e)),
              response c, s')
           else (Inl e, response c, s'))
      | (Inr d, s') \<Rightarrow>
          (case call_object (d_class d) r (response c) of
             (Inl e, res') \<Rightarrow>
               (if is_AttributeError e then
                  (Inl (CallError 405 (req_method r @ '' '' @ req_path r @ '' not supported'')),
                   res', s')
                else (Inl e, res', s'))
           | (Inr inst, res') \<Rightarrow>
               (case inst (d_method d) of
                  None \<Rightarrow>
                    (Inl (CallError 405 (req_method r @ '' '' @ req_path r @ '' not supported'')),
                     res', s')
                | Some cb \<Rightarrow> (Inr (cb, d_args d, d_kwargs d), res', s'))))"

text \<open>
  The two \<^verbatim>\<open>except\<close> clauses of \<^verbatim>\<open>handle\<close>, in their order: \<^verbatim>\<open>except CallError\<close>, then
  \<^verbatim>\<open>except Exception\<close>; what neither catches leaves \<^verbatim>\<open>handle\<close>.
\<close>

fun handle_except :: "exc \<Rightarrow> response \<Rightarrow> exc + response" where
  "handle_except (CallError c m) res = Inr (res\<lparr>res_code := c, res_body := ErrorBody (CallError c m)\<rparr>)"
| "handle_except e res =
     (if is_Exception e then Inr (res\<lparr>res_code := 500, res_body := ErrorBody e\<rparr>) else Inl e)"

text \<open>
  The body of the \<^verbatim>\<open>try\<close> statement of \<^verbatim>\<open>handle\<close>: what it raises, or that it ran to its
  end, with the response as it has been written so far.
\<close>

definition handle_try :: "env \<Rightarrow> call \<Rightarrow> pystate \<Rightarrow> (exc + unit) \<times> response \<times> pystate" where
  "handle_try ev c s =
     (case get_callback_info ev c s of
        (Inl e, res, s') \<Rightarrow> (Inl e, res, s')
      | (Inr (cb, callback_args, callback_kwargs), res, s') \<Rightarrow>
          (case cb callback_args callback_kwargs
                  (res\<lparr>res_headers := (res_headers res)(''Content-Type'' \<mapsto> content_type c)\<rparr>) of
             (Inl e, res') \<Rightarrow> (Inl e, res', s')
           | (Inr b, res') \<Rightarrow> (Inr (), res'\<lparr>res_body := ReturnValue b\<rparr>, s')))"

definition handle :: "env \<Rightarrow> call \<Rightarrow> pystate \<Rightarrow> (exc + response) \<times> pystate" where
  "handle ev c s =
     (case handle_try ev c s of
        (Inl e, res, s') \<Rightarrow> (handle_except e res, s')
      | (Inr u, res, s') \<Rightarrow> (Inr res, s'))"

section \<open>The route decorators\<close>

text \<open>
  The four decorator classes of \<^verbatim>\<open>decorators/call.py\<close> and every \<^verbatim>\<open>def\<close> statement of
  their bodies, in the order of the file. \<open>path_route\<close>, \<open>param_route\<close> and \<open>version\<close>
  derive from \<open>route\<close>.
\<close>

datatype decorator = Route | Path_route | Param_route | Version

datatype def_stmt =
    Route_handle_definition
  | Route_handle
  | Route_decorate
  | Route_normalize_target_params
  | Route_handle_error
  | Route_handle_failure
  | Path_route_decorate
  | Path_route_target
  | Param_route_decorate
  | Param_route_target
  | Param_route_handle_failure
  | Version_decorate_1
  | Version_target
  | Version_decorate_2

fun class_body :: "decorator \<Rightarrow> (string \<times> def_stmt) list" where
  "class_body Route =
     [(''handle_definition'', Route_handle_definition),
      (''handle'', Route_handle),
      (''decorate'', Route_decorate),
      (''normalize_target_params'', Route_normalize_target_params),
      (''handle_error'', Route_handle_error),
      (''handle_failure'', Route_handle_failure)]"
| "class_body Path_route =
     [(''decorate'', Path_route_decorate),
      (''target'', Path_route_target)]"
| "class_body Param_route =
     [(''decorate'', Param_route_decorate),
      (''target'', Param_route_target),
      (''handle_failure'', Param_route_handle_failure)]"
| "class_body Version =
     [(''decorate'', Version_decorate_1),
      (''target'', Version_target),
      (''decorate'', Version_decorate_2)]"

text \<open>
  Running a body binds each name in turn, a later \<^verbatim>\<open>def\<close> replacing an earlier one of
  the same name. A method is looked up in the namespace of the decorator's own body, then in
  that of \<open>route\<close>.
\<close>

definition class_namespace :: "(string \<times> def_stmt) list \<Rightarrow> string \<rightharpoonup> def_stmt" where
  "class_namespace stmts = fold (\<lambda>(n, f) ns. ns(n \<mapsto> f)) stmts Map.empty"

fun lookup_method :: "decorator \<Rightarrow> string \<Rightarrow> def_stmt option" where
  "lookup_method Route n = class_namespace (class_body Route) n"
| "lookup_method d n =
     (case class_namespace (class_body d) n of
        Some f \<Rightarrow> Some f
      | None \<Rightarrow> class_namespace (class_body Route) n)"

record controller =
  ctl_request :: request
  ctl_content_type :: string

text \<open>
  \<^verbatim>\<open>handle_failure\<close> never returns: the model gives the exception each of the two
  definitions raises, and \<open>None\<close> for a statement that is no \<^verbatim>\<open>handle_failure\<close>.
\<close>

fun run_handle_failure :: "def_stmt \<Rightarrow> controller \<Rightarrow> exc option" where
  "run_handle_failure Route_handle_failure ctl =
     Some (CallError 405 (''Could not find a method to satisfy '' @ req_path (ctl_request ctl)))"
| "run_handle_failure Param_route_handle_failure ctl =
     Some (CallError 400 (''Could not find a method to satisfy '' @ req_path (ctl_request ctl)))"
| "run_handle_failure f ctl = None"

definition handle_failure :: "decorator \<Rightarrow> controller \<Rightarrow> exc option" where
  "handle_failure d ctl =
     (case lookup_method d ''handle_failure'' of
        None \<Rightarrow> None
      | Some f \<Rightarrow> run_handle_failure f ctl)"

text \<open>
  Modelled from the spec: the selection among the alternatives of one HTTP method at call
  time, which \<^verbatim>\<open>ControllerDecorator\<close> (\<^verbatim>\<open>decorators/base.py\<close>) and \<^verbatim>\<open>Controller\<close> perform and
  which is not among the sources. The predicates are evaluated in declaration order, the
  first that holds selects its alternative, and when none holds the failure action runs: by
  the docstring of \<^verbatim>\<open>route.handle_failure\<close> it is the one of the first decorator that failed.
\<close>

fun select_alternative ::
  "request \<Rightarrow> (decorator \<times> (request \<Rightarrow> bool) \<times> 'a) list \<Rightarrow> 'a option" where
  "select_alternative req [] = None"
| "select_alternative req ((d, predicate, alt) # alts) =
     (if predicate req then Some alt else select_alternative req alts)"

definition route_dispatch ::
  "controller \<Rightarrow> decorator \<times> (request \<Rightarrow> bool) \<times> 'a \<Rightarrow>
   (decorator \<times> (request \<Rightarrow> bool) \<times> 'a) list \<Rightarrow> (exc option) + 'a" where
  "route_dispatch ctl alt alts =
     (case select_alternative (ctl_request ctl) (alt # alts) of
        Some f \<Rightarrow> Inr f
      | None \<Rightarrow> Inl (handle_failure (fst alt) ctl))"

subsection \<open>The version decorator\<close>

text \<open>
  The names bound at the top level of \<^verbatim>\<open>decorators/call.py\<close> (its imports, \<^verbatim>\<open>logger\<close> and
  its four classes), and the local names of \<^verbatim>\<open>version.target\<close> (its parameters and the
  names its body assigns). A name that a function body reads and does not bind is looked up
  among the globals of the module, then among the builtins, and raises \<^verbatim>\<open>NameError\<close> when
  neither has it.
\<close>

definition module_globals :: "string list" where
  "module_globals =
     [''unicode_literals'', ''division'', ''print_function'', ''absolute_import'',
      ''logging'', ''inspect'', ''re'', ''CallError'', ''RouteError'', ''VersionError'',
      ''Url'', ''ControllerDecorator'', ''logger'',
      ''route'', ''path_route'', ''param_route'', ''version'']"

definition version_target_locals :: "string list" where
  "version_target_locals =
     [''self'', ''request'', ''req_version'', ''ret'', ''pas'', ''method_args'', ''i'', ''p'']"

definition load_name :: "string list \<Rightarrow> string list \<Rightarrow> string \<Rightarrow> exc + string" where
  "load_name locals builtins n =
     (if n \<in> set locals \<or> n \<in> set module_globals \<or> n \<in> set builtins then Inr n
      else Inl (NameError (''global name '' @ n @ '' is not defined'')))"

text \<open>
  \<^verbatim>\<open>version.target\<close>: its first statement,
  \<^verbatim>\<open>req_version = req.version(self.content_type)\<close>, starts by loading the name \<^verbatim>\<open>req\<close>.
  \<open>rest\<close> is everything the body does once that name has been loaded.
\<close>

definition version_target :: "string list \<Rightarrow> (string \<Rightarrow> exc + bool) \<Rightarrow> exc + bool" where
  "version_target builtins rest =
     (case load_name version_target_locals builtins ''req'' of
        Inl e \<Rightarrow> Inl e
      | Inr req \<Rightarrow> rest req)"

text \<open>
  What a \<^verbatim>\<open>decorate\<close> method gives back: either the function is registered with a
  predicate (the callback handed to \<^verbatim>\<open>route\<close>, or the method \<^verbatim>\<open>self.target\<close>), or it is
  replaced by a wrapper.
\<close>

datatype route_target = Callback_target | Method_target def_stmt

datatype 'a decoration =
    By_predicate route_target
  | Wrapped "controller \<Rightarrow> exc + 'a"

text \<open>
  The wrapper \<^verbatim>\<open>decorated\<close> of the second \<^verbatim>\<open>version.decorate\<close>. \<open>version_of\<close> is
  \<^verbatim>\<open>req.version(self.content_type)\<close> of \<^verbatim>\<open>http.py\<close>.
\<close>

definition version_decorated ::
  "(request \<Rightarrow> string \<Rightarrow> string option) \<Rightarrow> (controller \<Rightarrow> exc + 'a) \<Rightarrow> string list \<Rightarrow>
   controller \<Rightarrow> exc + 'a" where
  "version_decorated version_of func versions self =
     (let req_version = version_of (ctl_request self) (ctl_content_type self) in
      if (case req_version of None \<Rightarrow> True | Some v \<Rightarrow> v \<notin> set versions)
      then Inl (VersionError req_version versions)
      else func self)"

fun run_decorate ::
  "decorator \<Rightarrow> def_stmt \<Rightarrow> (request \<Rightarrow> string \<Rightarrow> string option) \<Rightarrow>
   (controller \<Rightarrow> exc + 'a) \<Rightarrow> string list \<Rightarrow> 'a decoration option" where
  "run_decorate cls Route_decorate version_of func args = Some (By_predicate Callback_target)"
| "run_decorate cls Path_route_decorate version_of func args =
     map_option (\<lambda>t. By_predicate (Method_target t)) (lookup_method cls ''target'')"
| "run_decorate cls Param_route_decorate version_of func args =
     map_option (\<lambda>t. By_predicate (Method_target t)) (lookup_method cls ''target'')"
| "run_decorate cls Version_decorate_1 version_of func args =
     map_option (\<lambda>t. By_predicate (Method_target t)) (lookup_method cls ''target'')"
| "run_decorate cls Version_decorate_2 version_of func args =
     Some (Wrapped (version_decorated version_of func args))"
| "run_decorate cls f version_of func args = None"

definition apply_decorator ::
  "decorator \<Rightarrow> (request \<Rightarrow> string \<Rightarrow> string option) \<Rightarrow>
   (controller \<Rightarrow> exc + 'a) \<Rightarrow> string list \<Rightarrow> 'a decoration option" where
  "apply_decorator cls version_of func args =
     (case lookup_method cls ''decorate'' of
        None \<Rightarrow> None
      | Some f \<Rightarrow> run_decorate cls f version_of func args)"

section \<open>Helpers of the statements\<close>

text \<open>
  \<open>dotted base segs\<close> is the dotted name \<open>base.seg1.seg2...\<close>, the value of \<^verbatim>\<open>mod_name\<close>
  after the segments have been appended one by one.
\<close>

fun dotted :: "string \<Rightarrow> string list \<Rightarrow> string" where
  "dotted base [] = base"
| "dotted base (p # ps) = dotted (base @ ''.'' @ p) ps"

text \<open>
  The state of a fresh interpreter (\<^verbatim>\<open>_module_cache = {}\<close>), and the state after a history
  of calls of \<^verbatim>\<open>get_controllers\<close>, each with the environment it ran in.
\<close>

definition init_state :: pystate where
  "init_state = \<lparr>module_cache = Map.empty, heap = (\<lambda>r. {}), next_ref = 0\<rparr>"

definition run_calls :: "(env \<times> string) list \<Rightarrow> pystate \<Rightarrow> pystate" where
  "run_calls calls s = fold (\<lambda>(ev, p) s'. snd (get_controllers ev s' p)) calls s"

text \<open>Every cached reference has been allocated.\<close>

definition wf_state :: "pystate \<Rightarrow> bool" where
  "wf_state s = (\<forall>p r. module_cache s p = Some r \<longrightarrow> r < next_ref s)"

text \<open>
  Every cached set is what the walk of \<^verbatim>\<open>get_controllers\<close> collects for its prefix in the
  environment \<open>ev\<close>.
\<close>

definition cached_walks :: "env \<Rightarrow> pystate \<Rightarrow> bool" where
  "cached_walks ev s =
     (\<forall>p r. module_cache s p = Some r \<longrightarrow>
        (\<exists>m. import_module ev p = Inr m
           \<and> walk_dir p [] (os_tree ev (mod_file_dir m)) {} = Inr (heap s r)))"

section \<open>Example inputs\<close>

definition mk_env :: "(string \<times> pymodule) list \<Rightarrow> (string \<times> fsnode list) list \<Rightarrow> env" where
  "mk_env mods trees =
     \<lparr>import_module =
        (\<lambda>n. case map_of mods n of
                None \<Rightarrow> Inl (ImportError (''No module named '' @ n))
              | Some m \<Rightarrow> Inr m),
      os_tree = (\<lambda>p. case map_of trees p of None \<Rightarrow> [] | Some t \<Rightarrow> t),
      accept_filter = (\<lambda>h ct. [])\<rparr>"

definition mk_module :: "string \<Rightarrow> (string \<times> pyobj) list \<Rightarrow> pymodule" where
  "mk_module dir attrs = \<lparr>mod_file_dir = dir, mod_attrs = map_of attrs\<rparr>"

definition res0 :: response where
  "res0 = \<lparr>res_code = 200, res_headers = Map.empty, res_body = NoBody\<rparr>"

definition mk_request :: "string \<Rightarrow> string \<Rightarrow> string list \<Rightarrow> request" where
  "mk_request m p args =
     \<lparr>req_method = m, req_path = p, path_args = args, query_kwargs = [(''q'', ''1'')],
      req_headers = Map.empty\<rparr>"

definition mk_call :: "string \<Rightarrow> request \<Rightarrow> call" where
  "mk_call prefix req =
     \<lparr>kind = Call, controller_prefix = prefix, content_type = ''application/json'',
      default_version = None, request = req, response = res0\<rparr>"

text \<open>A controller whose only entry point is \<^verbatim>\<open>GET\<close>, with the outcome given.\<close>

definition get_only :: "(exc + string) \<Rightarrow> pyobj" where
  "get_only outcome =
     PyClass True (\<lambda>req res. (Inr [''GET'' \<mapsto> (\<lambda>args kwargs res'. (outcome, res'))], res))"

text \<open>
  A versioned call: the header \<^verbatim>\<open>*/*, application/json;version=v8\<close>, whose two media
  types are both compatible with \<^verbatim>\<open>application/json\<close>.
\<close>

definition env_accept :: env where
  "env_accept =
     (mk_env [] [])\<lparr>accept_filter :=
        (\<lambda>h ct. if h = ''*/*, application/json;version=v8'' \<and> ct = ''application/json''
                then [(''*'', ''*'', Map.empty),
                      (''application'', ''json'', [''version'' \<mapsto> ''v8''])]
                else [])\<rparr>"

definition call_version :: call where
  "call_version =
     (mk_call ''R''
        ((mk_request ''GET'' ''/'' [])
           \<lparr>req_headers := [''accept'' \<mapsto> ''*/*, application/json;version=v8'']\<rparr>))
       \<lparr>kind := VersionCall\<rparr>"

text \<open>
  A package \<^verbatim>\<open>R\<close> in \<^verbatim>\<open>/srv/R\<close> with a subpackage \<^verbatim>\<open>a\<close> and a module \<^verbatim>\<open>a/b.py\<close>, whose
  controllers are \<^verbatim>\<open>Default\<close> and \<^verbatim>\<open>C\<close>; and the same tree where the directory \<^verbatim>\<open>a\<close> has
  no \<^verbatim>\<open>__init__.py\<close>, so that only \<^verbatim>\<open>R\<close> can be imported.
\<close>

definition tree_pkg :: "fsnode list" where
  "tree_pkg = [File ''__init__.py'', Dir ''a'' [File ''__init__.py'', File ''b.py'']]"

definition tree_gap :: "fsnode list" where
  "tree_gap = [File ''__init__.py'', Dir ''a'' [File ''b.py'']]"

definition env_pkg :: env where
  "env_pkg =
     mk_env
       [(''R'', mk_module ''/srv/R'' [(''Default'', get_only (Inr ''root''))]),
        (''R.a'', mk_module ''/srv/R/a'' [(''Default'', get_only (Inr ''a''))]),
        (''R.a.b'', mk_module ''/srv/R/a''
           [(''Default'', get_only (Inr ''b'')), (''C'', get_only (Inr ''c''))])]
       [(''/srv/R'', tree_pkg)]"

definition env_gap :: env where
  "env_gap =
     mk_env
       [(''R'', mk_module ''/srv/R'' [(''Default'', get_only (Inr ''root''))])]
       [(''/srv/R'', tree_gap)]"

definition call_abcd :: call where
  "call_abcd = mk_call ''R'' (mk_request ''GET'' ''/a/b/c/d'' [''a'', ''b'', ''c'', ''d''])"

definition call_abc :: call where
  "call_abc = mk_call ''R'' (mk_request ''GET'' ''/a/b/c'' [''a'', ''b'', ''c''])"

text \<open>
  A package \<^verbatim>\<open>R\<close> that is one \<^verbatim>\<open>__init__.py\<close> with the controller \<^verbatim>\<open>Default\<close>, whose \<^verbatim>\<open>GET\<close>
  has the outcome given; the same with a \<^verbatim>\<open>Default\<close> whose constructor raises; and requests
  for its root.
\<close>

definition env_one :: "(exc + string) \<Rightarrow> env" where
  "env_one outcome =
     mk_env [(''R'', mk_module ''/srv/R'' [(''Default'', get_only outcome)])]
            [(''/srv/R'', [File ''__init__.py''])]"


definition call_root :: call where
  "call_root = mk_call ''R'' (mk_request ''GET'' ''/'' [])"


text \<open>
  A request whose first path segment is private; a module \<^verbatim>\<open>R\<close> that imports a helper
  \<^verbatim>\<open>Nomodbar\<close> which is no controller, with a request for \<^verbatim>\<open>/nomodbar\<close>; and a package \<^verbatim>\<open>R\<close>
  with a private and a hidden directory.
\<close>

definition call_private :: call where
  "call_private = mk_call ''R'' (mk_request ''GET'' ''/_private'' [''_private''])"

definition env_decoy :: env where
  "env_decoy =
     mk_env [(''R'', mk_module ''/srv/R''
                [(''Default'', get_only (Inr ''ok'')),
                 (''Nomodbar'',
                  PyClass False
                    (\<lambda>req res. (Inl (TypeError ''object() takes no parameters''), res)))])]
            [(''/srv/R'', [File ''__init__.py''])]"

definition call_nomodbar :: call where
  "call_nomodbar = mk_call ''R'' (mk_request ''GET'' ''/nomodbar'' [''nomodbar''])"

definition env_hidden :: env where
  "env_hidden =
     mk_env [(''R'', mk_module ''/srv/R'' [(''Default'', get_only (Inr ''ok''))])]
            [(''/srv/R'',
              [File ''__init__.py'',
               Dir ''_private'' [File ''secret.py''],
               Dir ''.hidden'' [File ''x.py'']])]"

text \<open>
  A controller serving \<^verbatim>\<open>GET /\<close>, two alternatives \<^verbatim>\<open>GET_1\<close> and \<^verbatim>\<open>GET_2\<close> of one decorator
  whose predicates want two and one path arguments, and the builtins that
  \<^verbatim>\<open>decorators/call.py\<close> uses.
\<close>

definition ctl0 :: controller where
  "ctl0 = \<lparr>ctl_request = mk_request ''GET'' ''/'' [], ctl_content_type = ''application/json''\<rparr>"

definition two_alternatives :: "decorator \<Rightarrow> (decorator \<times> (request \<Rightarrow> bool) \<times> string) list" where
  "two_alternatives d =
     [(d, (\<lambda>req. length (path_args req) = 2), ''GET_1''),
      (d, (\<lambda>req. length (path_args req) = 1), ''GET_2'')]"

definition used_builtins :: "string list" where
  "used_builtins =
     [''set'', ''len'', ''enumerate'', ''type'', ''super'', ''True'', ''False'',
      ''IndexError'', ''KeyError'']"

text \<open>
  Two packages side by side, \<^verbatim>\<open>R\<close> as above and \<^verbatim>\<open>Q\<close> with one module \<^verbatim>\<open>x.py\<close>; and a
  versioned call that has no content type and no Accept header, but a default version.
\<close>

definition env_two :: env where
  "env_two =
     mk_env
       [(''R'', mk_module ''/srv/R'' [(''Default'', get_only (Inr ''root''))]),
        (''Q'', mk_module ''/srv/Q'' [(''Default'', get_only (Inr ''q''))])]
       [(''/srv/R'', tree_pkg), (''/srv/Q'', [File ''__init__.py'', File ''x.py''])]"

definition call_no_content_type :: call where
  "call_no_content_type =
     (mk_call ''R'' (mk_request ''GET'' ''/'' []))
       \<lparr>kind := VersionCall, content_type := [], default_version := Some ''v1''\<rparr>"

section \<open>Properties\<close>

subsection \<open>Version negotiation\<close>

lemma version_loop_not_truthy:
  "List.find (\<lambda>mt. truthy (snd (snd mt) ''version'')) mts = None \<Longrightarrow> \<not> truthy v \<Longrightarrow>
   \<not> truthy (version_loop v mts)"
  by (induction mts arbitrary: v) (auto simp: Let_def split: if_splits)

lemma version_loop_found:
  "List.find (\<lambda>mt. truthy (snd (snd mt) ''version'')) mts = Some mt \<Longrightarrow>
   version_loop v mts = snd (snd mt) ''version'' \<and> truthy (snd (snd mt) ''version'')"
  by (induction mts arbitrary: v) (auto simp: Let_def split: if_splits)

lemma get_version_nonempty:
  assumes ct: "content_type c \<noteq> []"
    and entries: "entries =
      (case req_headers (request c) ''accept'' of
         None \<Rightarrow> []
       | Some h \<Rightarrow> if h = [] then [] else accept_filter ev h (content_type c))"
  shows "(\<forall>mt. List.find (\<lambda>mt. truthy (snd (snd mt) ''version'')) entries = Some mt \<longrightarrow>
            (\<exists>v. snd (snd mt) ''version'' = Some v \<and> v \<noteq> [] \<and> get_version ev c = Inr v))
       \<and> (\<forall>dv. List.find (\<lambda>mt. truthy (snd (snd mt) ''version'')) entries = None \<and>
               default_version c = Some dv \<and> dv \<noteq> [] \<longrightarrow> get_version ev c = Inr dv)
       \<and> (List.find (\<lambda>mt. truthy (snd (snd mt) ''version'')) entries = None \<and>
            \<not> truthy (default_version c) \<longrightarrow>
            get_version ev c =
              Inl (CallError 406 (''Expected accept header with '' @ content_type c @
                                  '';version=N media type'')))"
proof -
  let ?P = "\<lambda>mt::media_type. truthy (snd (snd mt) ''version'')"
  have v_eq: "get_version ev c =
      (let v = version_loop None entries in
       if \<not> truthy v then
         (case default_version c of
            None \<Rightarrow> Inl (CallError 406 (''Expected accept header with '' @ content_type c @
                                        '';version=N media type''))
          | Some dv \<Rightarrow>
              if dv = [] then Inl (CallError 406 (''Expected accept header with '' @
                                     content_type c @ '';version=N media type''))
              else Inr dv)
       else (case v of Some s \<Rightarrow> Inr s | None \<Rightarrow> Inr []))"
    using ct by (auto simp: get_version_def entries Let_def truthy_def split: option.splits)
  have none: "\<not> truthy (version_loop None entries)" if "List.find ?P entries = None"
    using version_loop_not_truthy[OF that, of None] by (simp add: truthy_def)
  show ?thesis
  proof (intro conjI allI impI)
    fix mt assume f: "List.find ?P entries = Some mt"
    from version_loop_found[OF f, of None]
    have vl: "version_loop None entries = snd (snd mt) ''version''"
      and tr: "truthy (snd (snd mt) ''version'')" by auto
    from tr obtain v where v: "snd (snd mt) ''version'' = Some v" "v \<noteq> []"
      by (auto simp: truthy_def split: option.splits)
    with vl tr have "get_version ev c = Inr v" by (simp add: v_eq)
    with v show "\<exists>v. snd (snd mt) ''version'' = Some v \<and> v \<noteq> [] \<and> get_version ev c = Inr v"
      by blast
  next
    fix dv assume "List.find ?P entries = None \<and> default_version c = Some dv \<and> dv \<noteq> []"
    then show "get_version ev c = Inr dv" using none by (simp add: v_eq)
  next
    assume "List.find ?P entries = None \<and> \<not> truthy (default_version c)"
    then show "get_version ev c =
              Inl (CallError 406 (''Expected accept header with '' @ content_type c @
                                  '';version=N media type''))"
      using none by (auto simp: v_eq truthy_def split: option.splits)
  qed
qed

text \<open>
  C7 (as amended). Without a content type, \<^verbatim>\<open>VersionCall.get_version\<close> raises \<^verbatim>\<open>ValueError\<close>,
  whatever the Accept header and the default version are. With a content type, it returns
  the version of the first media type, among those of the Accept header that are compatible
  with the content type, that carries a non-empty one; when none does (or there is no Accept
  header) it returns the non-empty \<open>default_version\<close>; and when there is no default either
  it raises a \<open>CallError\<close> with status 406.
\<close>

theorem get_version_cases:
  assumes entries: "entries =
      (case req_headers (request c) ''accept'' of
         None \<Rightarrow> []
       | Some h \<Rightarrow> if h = [] then [] else accept_filter ev h (content_type c))"
  shows "(content_type c = [] \<longrightarrow>
            get_version ev c = Inl (ValueError ''You are versioning a call with no content_type''))
       \<and> (content_type c \<noteq> [] \<longrightarrow>
            (\<forall>mt. List.find (\<lambda>mt. truthy (snd (snd mt) ''version'')) entries = Some mt \<longrightarrow>
               (\<exists>v. snd (snd mt) ''version'' = Some v \<and> v \<noteq> [] \<and> get_version ev c = Inr v))
          \<and> (\<forall>dv. List.find (\<lambda>mt. truthy (snd (snd mt) ''version'')) entries = None \<and>
                  default_version c = Some dv \<and> dv \<noteq> [] \<longrightarrow> get_version ev c = Inr dv)
          \<and> (List.find (\<lambda>mt. truthy (snd (snd mt) ''version'')) entries = None \<and>
               \<not> truthy (default_version c) \<longrightarrow>
               get_version ev c =
                 Inl (CallError 406 (''Expected accept header with '' @ content_type c @
                                     '';version=N media type''))))"
proof (rule conjI)
  show "content_type c = [] \<longrightarrow>
      get_version ev c = Inl (ValueError ''You are versioning a call with no content_type'')"
    by (simp add: get_version_def)
next
  have "(\<forall>mt. List.find (\<lambda>mt. truthy (snd (snd mt) ''version'')) entries = Some mt \<longrightarrow>
            (\<exists>v. snd (snd mt) ''version'' = Some v \<and> v \<noteq> [] \<and> get_version ev c = Inr v))
       \<and> (\<forall>dv. List.find (\<lambda>mt. truthy (snd (snd mt) ''version'')) entries = None \<and>
               default_version c = Some dv \<and> dv \<noteq> [] \<longrightarrow> get_version ev c = Inr dv)
       \<and> (List.find (\<lambda>mt. truthy (snd (snd mt) ''version'')) entries = None \<and>
            \<not> truthy (default_version c) \<longrightarrow>
            get_version ev c =
              Inl (CallError 406 (''Expected accept header with '' @ content_type c @
                                  '';version=N media type'')))"
    if ct: "content_type c \<noteq> []"
    using get_version_nonempty[OF ct entries] .
  then show "content_type c \<noteq> [] \<longrightarrow>
            (\<forall>mt. List.find (\<lambda>mt. truthy (snd (snd mt) ''version'')) entries = Some mt \<longrightarrow>
               (\<exists>v. snd (snd mt) ''version'' = Some v \<and> v \<noteq> [] \<and> get_version ev c = Inr v))
          \<and> (\<forall>dv. List.find (\<lambda>mt. truthy (snd (snd mt) ''version'')) entries = None \<and>
                  default_version c = Some dv \<and> dv \<noteq> [] \<longrightarrow> get_version ev c = Inr dv)
          \<and> (List.find (\<lambda>mt. truthy (snd (snd mt) ''version'')) entries = None \<and>
               \<not> truthy (default_version c) \<longrightarrow>
               get_version ev c =
                 Inl (CallError 406 (''Expected accept header with '' @ content_type c @
                                     '';version=N media type'')))"
    by (rule impI)
qed

theorem get_version_witness:
  "content_type call_version \<noteq> [] \<and> get_version env_accept call_version = Inr ''v8''"
proof -
  have ct: "content_type call_version \<noteq> []"
    by (simp add: call_version_def mk_call_def)
  have en: "[(''*'', ''*'', Map.empty), (''application'', ''json'', [''version'' \<mapsto> ''v8''])] =
      (case req_headers (request call_version) ''accept'' of
         None \<Rightarrow> []
       | Some h \<Rightarrow> if h = [] then []
                   else accept_filter env_accept h (content_type call_version))"
    by (simp add: call_version_def mk_call_def mk_request_def env_accept_def mk_env_def)
  from get_version_cases[OF en] show ?thesis
    using ct by (simp add: truthy_def)
qed

text \<open>
  The claim as stated fails for a call without a content type: with no Accept header and
  the default version \<^verbatim>\<open>v1\<close> configured, \<^verbatim>\<open>get_version\<close> does not return the default (and
  raises no 406 either), it raises \<^verbatim>\<open>ValueError\<close>.
\<close>

theorem get_version_counterexample:
  "req_headers (request call_no_content_type) ''accept'' = None
   \<and> default_version call_no_content_type = Some ''v1''
   \<and> get_version (mk_env [] []) call_no_content_type
       = Inl (ValueError ''You are versioning a call with no content_type'')
   \<and> get_version (mk_env [] []) call_no_content_type \<noteq> Inr ''v1''"
  by (simp add: get_version_def call_no_content_type_def mk_call_def mk_request_def)

subsection \<open>The cache of get_controllers\<close>

lemma get_controllers_hit:
  "p \<noteq> [] \<Longrightarrow> module_cache s p = Some r \<Longrightarrow> get_controllers ev s p = (Inr r, s)"
  by (simp add: get_controllers_def)

lemma get_controllers_result:
  assumes "get_controllers ev s p = (Inr r, s1)"
  shows "module_cache s1 p = Some r"
  using assms
  by (auto simp: get_controllers_def split: if_splits option.splits sum.splits)

lemma get_controllers_wf:
  assumes "wf_state s"
  shows "wf_state (snd (get_controllers ev s p))"
  using assms
  by (auto simp: get_controllers_def wf_state_def less_Suc_eq
           split: if_splits option.splits sum.splits)

lemma get_controllers_keeps:
  assumes "wf_state s" and "module_cache s p = Some r"
  shows "module_cache (snd (get_controllers ev s q)) p = Some r
       \<and> heap (snd (get_controllers ev s q)) r = heap s r"
  using assms
  by (auto simp: get_controllers_def wf_state_def
           split: if_splits option.splits sum.splits)

lemma run_calls_wf: "wf_state s \<Longrightarrow> wf_state (run_calls calls s)"
  unfolding run_calls_def
  by (induction calls arbitrary: s) (auto simp: get_controllers_wf)

lemma run_calls_keeps:
  "wf_state s \<Longrightarrow> module_cache s p = Some r \<Longrightarrow>
   module_cache (run_calls calls s) p = Some r \<and> heap (run_calls calls s) r = heap s r"
  unfolding run_calls_def
proof (induction calls arbitrary: s)
  case Nil
  then show ?case by simp
next
  case (Cons a calls)
  obtain ev q where a: "a = (ev, q)" by (cases a)
  let ?s = "snd (get_controllers ev s q)"
  have "wf_state ?s" using Cons.prems(1) by (rule get_controllers_wf)
  moreover have k: "module_cache ?s p = Some r \<and> heap ?s r = heap s r"
    using Cons.prems by (rule get_controllers_keeps)
  ultimately show ?case using Cons.IH[of ?s] by (simp add: a)
qed

lemma wf_init: "wf_state init_state"
  by (simp add: wf_state_def init_state_def)

lemma get_controllers_miss:
  assumes "module_cache s p = None" and "get_controllers ev s p = (Inr r, s1)"
  shows "r = next_ref s
       \<and> (\<exists>m. import_module ev p = Inr m
             \<and> walk_dir p [] (os_tree ev (mod_file_dir m)) {} = Inr (heap s1 r))"
  using assms
  by (auto simp: get_controllers_def simp del: walk_dir.simps split: if_splits sum.splits)

lemma get_controllers_cached_walks:
  assumes "wf_state s" and "cached_walks ev s"
  shows "cached_walks ev (snd (get_controllers ev s p))"
proof (cases "get_controllers ev s p")
  case (Pair out s1)
  show ?thesis
  proof (cases "s1 = s")
    case True
    with Pair assms(2) show ?thesis by simp
  next
    case False
    with Pair obtain m modules where
      m: "import_module ev p = Inr m"
      and w: "walk_dir p [] (os_tree ev (mod_file_dir m)) {} = Inr modules"
      and s1: "s1 = s\<lparr>module_cache := (module_cache s)(p \<mapsto> next_ref s),
                      heap := (heap s)(next_ref s := modules),
                      next_ref := Suc (next_ref s)\<rparr>"
      by (auto simp: get_controllers_def simp del: walk_dir.simps
               split: if_splits option.splits sum.splits)
    have "\<exists>m'. import_module ev q = Inr m'
             \<and> walk_dir q [] (os_tree ev (mod_file_dir m')) {} = Inr (heap s1 r)"
      if c: "module_cache s1 q = Some r" for q r
    proof (cases "q = p")
      case True
      with c s1 have "r = next_ref s" by simp
      with True m w s1 show ?thesis by (simp del: walk_dir.simps)
    next
      case False
      with c s1 have old: "module_cache s q = Some r" by simp
      with assms(1) have "r < next_ref s" by (simp add: wf_state_def)
      with s1 have "heap s1 r = heap s r" by simp
      with assms(2) old show ?thesis by (simp add: cached_walks_def del: walk_dir.simps)
    qed
    with Pair show ?thesis by (simp add: cached_walks_def del: walk_dir.simps)
  qed
qed

lemma run_calls_cached_walks:
  "wf_state s \<Longrightarrow> cached_walks ev s \<Longrightarrow> list_all (\<lambda>(ev0, q). ev0 = ev) calls \<Longrightarrow>
   cached_walks ev (run_calls calls s)"
  unfolding run_calls_def
proof (induction calls arbitrary: s)
  case Nil
  then show ?case by simp
next
  case (Cons a calls)
  obtain ev0 q where a: "a = (ev0, q)" by (cases a)
  with Cons.prems(3) have e: "ev0 = ev" and rest: "list_all (\<lambda>(ev0, q). ev0 = ev) calls"
    by simp_all
  let ?s = "snd (get_controllers ev s q)"
  have "wf_state ?s" using Cons.prems(1) by (rule get_controllers_wf)
  moreover have "cached_walks ev ?s"
    using Cons.prems(1,2) by (rule get_controllers_cached_walks)
  ultimately show ?case using Cons.IH[of ?s] rest by (simp add: a e)
qed

lemma cached_walks_init: "cached_walks ev init_state"
  by (simp add: cached_walks_def init_state_def)

text \<open>
  C9. Starting from a fresh interpreter and after any history of calls, a call of
  \<^verbatim>\<open>get_controllers\<close> with a non-empty prefix that returns leaves its result cached under
  that prefix; every later call with the prefix, after any further calls and whatever the
  modules and the file system have become, returns the same set object and changes nothing,
  and the contents of that object stay what they were. The set of a first call is what the
  walk collects for the prefix; and when the modules and the file system are the same in
  all calls, the set returned for a prefix is what the walk collects for it, whichever calls
  came before and in whichever order.
\<close>

theorem get_controllers_cached:
  assumes p: "cp \<noteq> []"
    and s: "s = run_calls history init_state"
    and first: "get_controllers ev s cp = (Inr r, s1)"
  shows "module_cache s1 cp = Some r
       \<and> (\<forall>later ev'.
            get_controllers ev' (run_calls later s1) cp
              = (Inr r, run_calls later s1)
            \<and> heap (run_calls later s1) r = heap s1 r)
       \<and> (module_cache s cp = None \<longrightarrow>
            (\<exists>m. import_module ev cp = Inr m
               \<and> walk_dir cp [] (os_tree ev (mod_file_dir m)) {} = Inr (heap s1 r)))
       \<and> (list_all (\<lambda>(ev0, q). ev0 = ev) history \<longrightarrow>
            (\<exists>m. import_module ev cp = Inr m
               \<and> walk_dir cp [] (os_tree ev (mod_file_dir m)) {} = Inr (heap s1 r)))"
proof -
  have wf: "wf_state s" using s run_calls_wf[OF wf_init] by simp
  have s1: "s1 = snd (get_controllers ev s cp)" using first by simp
  have wf1: "wf_state s1" unfolding s1 using wf by (rule get_controllers_wf)
  have c1: "module_cache s1 cp = Some r"
    using first by (rule get_controllers_result)
  have miss: "\<exists>m. import_module ev cp = Inr m
               \<and> walk_dir cp [] (os_tree ev (mod_file_dir m)) {} = Inr (heap s1 r)"
    if "module_cache s cp = None"
    using get_controllers_miss[OF that first] by blast
  have static: "\<exists>m. import_module ev cp = Inr m
               \<and> walk_dir cp [] (os_tree ev (mod_file_dir m)) {} = Inr (heap s1 r)"
    if "list_all (\<lambda>(ev0, q). ev0 = ev) history"
  proof -
    have "cached_walks ev s"
      unfolding s using wf_init cached_walks_init that by (rule run_calls_cached_walks)
    with wf have "cached_walks ev s1"
      unfolding s1 by (rule get_controllers_cached_walks)
    with c1 show ?thesis by (simp add: cached_walks_def del: walk_dir.simps)
  qed
  show ?thesis
  proof (intro conjI allI impI)
    show "module_cache s1 cp = Some r" by (rule c1)
  next
    fix later ev'
    from run_calls_keeps[OF wf1 c1, of later]
    have "module_cache (run_calls later s1) cp = Some r" by simp
    then show "get_controllers ev' (run_calls later s1) cp
              = (Inr r, run_calls later s1)"
      using p by (simp add: get_controllers_hit)
  next
    fix later ev'
    from run_calls_keeps[OF wf1 c1, of later]
    show "heap (run_calls later s1) r = heap s1 r" by simp
  next
    assume "module_cache s cp = None"
    then show "\<exists>m. import_module ev cp = Inr m
               \<and> walk_dir cp [] (os_tree ev (mod_file_dir m)) {} = Inr (heap s1 r)"
      by (rule miss)
  next
    assume "list_all (\<lambda>(ev0, q). ev0 = ev) history"
    then show "\<exists>m. import_module ev cp = Inr m
               \<and> walk_dir cp [] (os_tree ev (mod_file_dir m)) {} = Inr (heap s1 r)"
      by (rule static)
  qed
qed

lemma eval_pkg:
  "get_controllers env_pkg init_state ''R'' =
     (Inr 0, \<lparr>module_cache = [''R'' \<mapsto> 0],
              heap = (\<lambda>r. {})(0 := {''R'', ''R.a'', ''R.a.b''}), next_ref = Suc 0\<rparr>)"
  by (simp add: get_controllers_def env_pkg_def mk_env_def mk_module_def init_state_def
      tree_pkg_def fnmatch_py_def startswith_def splitext_root_def insert_commute)

lemma eval_two_Q:
  "run_calls [(env_two, ''Q'')] init_state =
     \<lparr>module_cache = [''Q'' \<mapsto> 0],
      heap = (\<lambda>r. {})(0 := {''Q'', ''Q.x''}), next_ref = Suc 0\<rparr>"
  by (simp add: run_calls_def get_controllers_def env_two_def mk_env_def mk_module_def
      init_state_def tree_pkg_def fnmatch_py_def startswith_def splitext_root_def
      insert_commute)

lemma eval_two_R_after:
  "get_controllers env_two (run_calls [(env_two, ''Q'')] init_state) ''R'' =
     (Inr 1, \<lparr>module_cache = [''Q'' \<mapsto> 0, ''R'' \<mapsto> 1],
              heap = (\<lambda>r. {})(0 := {''Q'', ''Q.x''}, 1 := {''R'', ''R.a'', ''R.a.b''}),
              next_ref = Suc (Suc 0)\<rparr>)"
  unfolding eval_two_Q
  by (simp add: get_controllers_def env_two_def mk_env_def mk_module_def
      tree_pkg_def fnmatch_py_def startswith_def splitext_root_def insert_commute)

lemma eval_two_R_first:
  "get_controllers env_two init_state ''R'' =
     (Inr 0, \<lparr>module_cache = [''R'' \<mapsto> 0],
              heap = (\<lambda>r. {})(0 := {''R'', ''R.a'', ''R.a.b''}), next_ref = Suc 0\<rparr>)"
  by (simp add: get_controllers_def env_two_def mk_env_def mk_module_def init_state_def
      tree_pkg_def fnmatch_py_def startswith_def splitext_root_def insert_commute)

lemma walk_two_R:
  "import_module env_two ''R'' = Inr m \<Longrightarrow>
   walk_dir ''R'' [] (os_tree env_two (mod_file_dir m)) {} = Inr {''R'', ''R.a'', ''R.a.b''}"
  by (auto simp: env_two_def mk_env_def mk_module_def
      tree_pkg_def fnmatch_py_def startswith_def splitext_root_def insert_commute)

theorem get_controllers_cached_witness:
  "''R'' \<noteq> [] \<and> list_all (\<lambda>(ev0, q). ev0 = env_two) [(env_two, ''Q'')]
   \<and> fst (get_controllers env_two init_state ''R'') = Inr 0
   \<and> heap (snd (get_controllers env_two init_state ''R'')) 0 = {''R'', ''R.a'', ''R.a.b''}
   \<and> fst (get_controllers env_two (run_calls [(env_two, ''Q'')] init_state) ''R'') = Inr 1
   \<and> heap (snd (get_controllers env_two (run_calls [(env_two, ''Q'')] init_state) ''R'')) 1
       = {''R'', ''R.a'', ''R.a.b''}
   \<and> fst (get_controllers (mk_env [] [])
             (run_calls [(env_gap, ''P'')]
                (snd (get_controllers env_two (run_calls [(env_two, ''Q'')] init_state) ''R'')))
             ''R'') = Inr 1
   \<and> heap (run_calls [(env_gap, ''P'')]
              (snd (get_controllers env_two (run_calls [(env_two, ''Q'')] init_state) ''R''))) 1
       = {''R'', ''R.a'', ''R.a.b''}"
proof -
  let ?s = "run_calls [(env_two, ''Q'')] init_state"
  let ?s1 = "snd (get_controllers env_two ?s ''R'')"
  have n: "''R'' \<noteq> []" by simp
  have h: "?s = run_calls [(env_two, ''Q'')] init_state" by simp
  have f: "get_controllers env_two ?s ''R'' = (Inr 1, ?s1)"
    by (simp add: eval_two_R_after)
  have st: "list_all (\<lambda>(ev0, q). ev0 = env_two) [(env_two, ''Q'')]" by simp
  note inst = get_controllers_cached[OF n h f]
  from inst st obtain m where m: "import_module env_two ''R'' = Inr m"
    and w: "walk_dir ''R'' [] (os_tree env_two (mod_file_dir m)) {} = Inr (heap ?s1 1)"
    by blast
  from walk_two_R[OF m] w have set1: "heap ?s1 1 = {''R'', ''R.a'', ''R.a.b''}"
    by (simp del: walk_dir.simps)
  from inst have later:
    "get_controllers (mk_env [] []) (run_calls [(env_gap, ''P'')] ?s1) ''R''
       = (Inr 1, run_calls [(env_gap, ''P'')] ?s1)
     \<and> heap (run_calls [(env_gap, ''P'')] ?s1) 1 = heap ?s1 1"
    by blast
  from set1 later st show ?thesis
    by (simp add: eval_two_R_first eval_two_R_after del: walk_dir.simps)
qed

subsection \<open>Advanced resolution\<close>

lemma module_walk_greedy:
  "\<exists>k\<le>length ps.
      module_walk cset m m ps = (dotted m (take k ps), drop k ps)
    \<and> (\<forall>j. 1 \<le> j \<and> j \<le> k \<longrightarrow> dotted m (take j ps) \<in> cset)
    \<and> (k < length ps \<longrightarrow> dotted m (take (Suc k) ps) \<notin> cset)"
proof (induction ps arbitrary: m)
  case Nil
  then show ?case by simp
next
  case (Cons p ps)
  show ?case
  proof (cases "m @ ''.'' @ p \<in> cset")
    case False
    then have "module_walk cset m m (p # ps) = (dotted m (take 0 (p # ps)), drop 0 (p # ps))
      \<and> (\<forall>j. 1 \<le> j \<and> j \<le> (0::nat) \<longrightarrow> dotted m (take j (p # ps)) \<in> cset)
      \<and> (0 < length (p # ps) \<longrightarrow> dotted m (take (Suc 0) (p # ps)) \<notin> cset)"
      by simp
    then show ?thesis by blast
  next
    case True
    from Cons.IH[of "m @ ''.'' @ p"] obtain k where k: "k \<le> length ps"
      "module_walk cset (m @ ''.'' @ p) (m @ ''.'' @ p) ps
         = (dotted (m @ ''.'' @ p) (take k ps), drop k ps)"
      "\<forall>j. 1 \<le> j \<and> j \<le> k \<longrightarrow> dotted (m @ ''.'' @ p) (take j ps) \<in> cset"
      "k < length ps \<longrightarrow> dotted (m @ ''.'' @ p) (take (Suc k) ps) \<notin> cset"
      by blast
    have a: "module_walk cset m m (p # ps) = (dotted m (take (Suc k) (p # ps)), drop (Suc k) (p # ps))"
      using True k(2) by simp
    have b: "dotted m (take j (p # ps)) \<in> cset" if "1 \<le> j \<and> j \<le> Suc k" for j
    proof (cases j)
      case 0
      with that show ?thesis by simp
    next
      case (Suc j')
      show ?thesis
      proof (cases j')
        case 0
        with Suc True show ?thesis by simp
      next
        case (Suc i)
        with \<open>j = Suc j'\<close> that k(3) show ?thesis by simp
      qed
    qed
    have c: "Suc k < length (p # ps) \<longrightarrow> dotted m (take (Suc (Suc k)) (p # ps)) \<notin> cset"
      using k(4) by simp
    have "Suc k \<le> length (p # ps)" using k(1) by simp
    with a b c show ?thesis by blast
  qed
qed

lemma advanced_Inr:
  assumes "get_controller_info_advanced ev c s = (Inr d, s')"
  shows "\<exists>cp r m. get_normalized_prefix ev c = Inr cp
      \<and> get_controllers ev s cp = (Inr r, s')
      \<and> d_module_name d = fst (module_walk (heap s' r) cp cp (path_args (request c)))
      \<and> import_module ev (d_module_name d) = Inr m
      \<and> d_module d = m
      \<and> mod_attrs m (d_class_name d) = Some (d_class d)
      \<and> d_method d = upper (req_method (request c))
      \<and> d_kwargs d = query_kwargs (request c)
      \<and> (case snd (module_walk (heap s' r) cp cp (path_args (request c))) of
            [] \<Rightarrow> d_class_name d = ''Default'' \<and> d_args d = []
          | p # ps \<Rightarrow>
              if mod_attrs m (capitalize p) \<noteq> None
              then d_class_name d = capitalize p \<and> d_args d = ps
              else d_class_name d = ''Default'' \<and> d_args d = p # ps)"
  using assms
  unfolding get_controller_info_advanced_def getattr_module_def Let_def
  by (auto split: sum.splits prod.splits list.splits if_splits option.splits)

text \<open>
  C1 (as amended). Whenever \<^verbatim>\<open>get_controller_info_advanced\<close> returns, the module it selects is
  the prefix extended by the first \<open>k\<close> path segments, where each of the first \<open>k\<close>
  extensions is in the controller set and the next one (if a segment is left) is not; when
  the controller set holds, with each name along the path, the shorter names along the path
  too, no longer extension is in the set, so the selected name is the longest one. The
  segments after the module (and after the one taken as the name of the controller, if one
  is) are the positional arguments, in order, and the query parameters are the keyword
  arguments.
\<close>

theorem advanced_greedy_prefix:
  assumes "get_controller_info_advanced ev c s = (Inr d, s')"
  shows "\<exists>cp r k.
      get_normalized_prefix ev c = Inr cp
    \<and> get_controllers ev s cp = (Inr r, s')
    \<and> k \<le> length (path_args (request c))
    \<and> d_module_name d = dotted cp (take k (path_args (request c)))
    \<and> (\<forall>j. 1 \<le> j \<and> j \<le> k \<longrightarrow> dotted cp (take j (path_args (request c))) \<in> heap s' r)
    \<and> (k < length (path_args (request c)) \<longrightarrow>
          dotted cp (take (Suc k) (path_args (request c))) \<notin> heap s' r)
    \<and> ((\<forall>i j. 1 \<le> i \<and> i \<le> j \<and> j \<le> length (path_args (request c)) \<and>
                dotted cp (take j (path_args (request c))) \<in> heap s' r \<longrightarrow>
                dotted cp (take i (path_args (request c))) \<in> heap s' r) \<longrightarrow>
         (\<forall>j. k < j \<and> j \<le> length (path_args (request c)) \<longrightarrow>
                dotted cp (take j (path_args (request c))) \<notin> heap s' r))
    \<and> (d_class_name d = ''Default'' \<and> d_args d = drop k (path_args (request c))
        \<or> k < length (path_args (request c))
          \<and> d_class_name d = capitalize (path_args (request c) ! k)
          \<and> d_args d = drop (Suc k) (path_args (request c)))
    \<and> d_kwargs d = query_kwargs (request c)"
proof -
  let ?path = "path_args (request c)"
  from advanced_Inr[OF assms] obtain cp r m where
    all: "get_normalized_prefix ev c = Inr cp
      \<and> get_controllers ev s cp = (Inr r, s')
      \<and> d_module_name d = fst (module_walk (heap s' r) cp cp ?path)
      \<and> import_module ev (d_module_name d) = Inr m
      \<and> d_module d = m
      \<and> mod_attrs m (d_class_name d) = Some (d_class d)
      \<and> d_method d = upper (req_method (request c))
      \<and> d_kwargs d = query_kwargs (request c)
      \<and> (case snd (module_walk (heap s' r) cp cp ?path) of
            [] \<Rightarrow> d_class_name d = ''Default'' \<and> d_args d = []
          | p # ps \<Rightarrow>
              if mod_attrs m (capitalize p) \<noteq> None
              then d_class_name d = capitalize p \<and> d_args d = ps
              else d_class_name d = ''Default'' \<and> d_args d = p # ps)"
    by blast
  from all have cp: "get_normalized_prefix ev c = Inr cp"
    and gc: "get_controllers ev s cp = (Inr r, s')"
    and mn: "d_module_name d = fst (module_walk (heap s' r) cp cp ?path)"
    and kw: "d_kwargs d = query_kwargs (request c)"
    and cl: "(case snd (module_walk (heap s' r) cp cp ?path) of
            [] \<Rightarrow> d_class_name d = ''Default'' \<and> d_args d = []
          | p # ps \<Rightarrow>
              if mod_attrs m (capitalize p) \<noteq> None
              then d_class_name d = capitalize p \<and> d_args d = ps
              else d_class_name d = ''Default'' \<and> d_args d = p # ps)"
    by simp_all
  from module_walk_greedy[of ?path "heap s' r" cp] obtain k where
    k: "k \<le> length ?path"
    and w: "module_walk (heap s' r) cp cp ?path = (dotted cp (take k ?path), drop k ?path)"
    and inn: "\<forall>j. 1 \<le> j \<and> j \<le> k \<longrightarrow> dotted cp (take j ?path) \<in> heap s' r"
    and out: "k < length ?path \<longrightarrow> dotted cp (take (Suc k) ?path) \<notin> heap s' r"
    by blast
  have longest: "\<forall>j. k < j \<and> j \<le> length ?path \<longrightarrow> dotted cp (take j ?path) \<notin> heap s' r"
    if closed: "\<forall>i j. 1 \<le> i \<and> i \<le> j \<and> j \<le> length ?path \<and>
                dotted cp (take j ?path) \<in> heap s' r \<longrightarrow>
                dotted cp (take i ?path) \<in> heap s' r"
  proof (intro allI impI)
    fix j assume j: "k < j \<and> j \<le> length ?path"
    show "dotted cp (take j ?path) \<notin> heap s' r"
    proof
      assume "dotted cp (take j ?path) \<in> heap s' r"
      with closed[rule_format, of "Suc k" j] j
      have "dotted cp (take (Suc k) ?path) \<in> heap s' r" by simp
      with out j show False by simp
    qed
  qed
  have args: "d_class_name d = ''Default'' \<and> d_args d = drop k ?path
        \<or> k < length ?path \<and> d_class_name d = capitalize (?path ! k)
          \<and> d_args d = drop (Suc k) ?path"
  proof (cases "drop k ?path")
    case Nil
    with cl w show ?thesis by simp
  next
    case (Cons p ps)
    then have kl: "k < length ?path" by (cases "k < length ?path") auto
    with Cons have p: "p = ?path ! k" and ps: "ps = drop (Suc k) ?path"
      by (simp_all add: Cons_nth_drop_Suc[symmetric])
    from cl w Cons show ?thesis using kl p ps by (auto split: if_splits)
  qed
  have mn': "d_module_name d = dotted cp (take k ?path)" using mn w by simp
  have longest': "(\<forall>i j. 1 \<le> i \<and> i \<le> j \<and> j \<le> length ?path \<and>
                dotted cp (take j ?path) \<in> heap s' r \<longrightarrow>
                dotted cp (take i ?path) \<in> heap s' r) \<longrightarrow>
         (\<forall>j. k < j \<and> j \<le> length ?path \<longrightarrow> dotted cp (take j ?path) \<notin> heap s' r)"
    using longest by (rule impI)
  show ?thesis
  proof (intro exI conjI)
    show "get_normalized_prefix ev c = Inr cp" by (rule cp)
    show "get_controllers ev s cp = (Inr r, s')" by (rule gc)
    show "k \<le> length ?path" by (rule k)
    show "d_module_name d = dotted cp (take k ?path)" by (rule mn')
    show "\<forall>j. 1 \<le> j \<and> j \<le> k \<longrightarrow> dotted cp (take j ?path) \<in> heap s' r" by (rule inn)
    show "k < length ?path \<longrightarrow> dotted cp (take (Suc k) ?path) \<notin> heap s' r" by (rule out)
    show "(\<forall>i j. 1 \<le> i \<and> i \<le> j \<and> j \<le> length ?path \<and>
                dotted cp (take j ?path) \<in> heap s' r \<longrightarrow>
                dotted cp (take i ?path) \<in> heap s' r) \<longrightarrow>
         (\<forall>j. k < j \<and> j \<le> length ?path \<longrightarrow> dotted cp (take j ?path) \<notin> heap s' r)"
      by (rule longest')
    show "d_class_name d = ''Default'' \<and> d_args d = drop k ?path
        \<or> k < length ?path \<and> d_class_name d = capitalize (?path ! k)
          \<and> d_args d = drop (Suc k) ?path" by (rule args)
    show "d_kwargs d = query_kwargs (request c)" by (rule kw)
  qed
qed

lemma cap_c: "capitalize ''c'' = ''C''"
  by (simp add: capitalize_def upper_char_def)

lemma cap_a: "capitalize ''a'' = ''A''"
  by (simp add: capitalize_def upper_char_def)

lemma import_pkg_ab:
  "import_module env_pkg ''R.a.b'' =
     Inr (mk_module ''/srv/R/a''
            [(''Default'', get_only (Inr ''b'')), (''C'', get_only (Inr ''c''))])"
  by (simp add: env_pkg_def mk_env_def)

lemma upper_GET: "upper ''GET'' = ''GET''"
  by (simp add: upper_def upper_char_def)

lemma eval_advanced_pkg:
  "get_controller_info_advanced env_pkg call_abcd init_state
   = (Inr \<lparr>d_module_name = ''R.a.b'', d_class_name = ''C'',
           d_module = mk_module ''/srv/R/a''
             [(''Default'', get_only (Inr ''b'')), (''C'', get_only (Inr ''c''))],
           d_class = get_only (Inr ''c''), d_method = ''GET'',
           d_args = [''d''], d_kwargs = [(''q'', ''1'')]\<rparr>,
      snd (get_controllers env_pkg init_state ''R''))"
  unfolding get_controller_info_advanced_def get_normalized_prefix_def call_abcd_def
  by (simp add: eval_pkg mk_call_def mk_request_def cap_c getattr_module_def
      import_pkg_ab mk_module_def upper_GET)

theorem advanced_greedy_prefix_witness:
  "(case fst (get_controller_info_advanced env_pkg call_abcd init_state) of
      Inr d \<Rightarrow> d_module_name d = ''R.a.b'' \<and> d_class_name d = ''C''
              \<and> d_args d = [''d''] \<and> d_kwargs d = query_kwargs (request call_abcd)
    | Inl e \<Rightarrow> False)"
proof -
  from advanced_greedy_prefix[OF eval_advanced_pkg]
  have "d_kwargs \<lparr>d_module_name = ''R.a.b'', d_class_name = ''C'',
           d_module = mk_module ''/srv/R/a''
             [(''Default'', get_only (Inr ''b'')), (''C'', get_only (Inr ''c''))],
           d_class = get_only (Inr ''c''), d_method = ''GET'',
           d_args = [''d''], d_kwargs = [(''q'', ''1'')]\<rparr> = query_kwargs (request call_abcd)"
    by blast
  then show ?thesis by (simp add: eval_advanced_pkg)
qed

lemma eval_gap:
  "get_controllers env_gap init_state ''R'' =
     (Inr 0, \<lparr>module_cache = [''R'' \<mapsto> 0],
              heap = (\<lambda>r. {})(0 := {''R'', ''R.a.b''}), next_ref = Suc 0\<rparr>)"
  by (simp add: get_controllers_def env_gap_def mk_env_def mk_module_def init_state_def
      tree_gap_def fnmatch_py_def startswith_def splitext_root_def insert_commute)

lemma import_gap_R:
  "import_module env_gap ''R'' =
     Inr (mk_module ''/srv/R'' [(''Default'', get_only (Inr ''root''))])"
  by (simp add: env_gap_def mk_env_def)

lemma eval_advanced_gap:
  "get_controller_info_advanced env_gap call_abc init_state
   = (Inr \<lparr>d_module_name = ''R'', d_class_name = ''Default'',
           d_module = mk_module ''/srv/R'' [(''Default'', get_only (Inr ''root''))],
           d_class = get_only (Inr ''root''), d_method = ''GET'',
           d_args = [''a'', ''b'', ''c''], d_kwargs = [(''q'', ''1'')]\<rparr>,
      snd (get_controllers env_gap init_state ''R''))"
  unfolding get_controller_info_advanced_def get_normalized_prefix_def call_abc_def
  by (simp add: eval_gap mk_call_def mk_request_def cap_a getattr_module_def
      import_gap_R mk_module_def upper_GET)

text \<open>
  The claim as stated fails where the controller set has a gap: for the tree in which the
  directory \<^verbatim>\<open>a\<close> holds \<^verbatim>\<open>b.py\<close> and no \<^verbatim>\<open>__init__.py\<close>, \<^verbatim>\<open>get_controllers\<close> returns a set with
  \<^verbatim>\<open>R.a.b\<close> and without \<^verbatim>\<open>R.a\<close> and \<^verbatim>\<open>R.a.b.c\<close>, and the path \<^verbatim>\<open>/a/b/c\<close> selects the
  module \<^verbatim>\<open>R\<close>, not \<^verbatim>\<open>R.a.b\<close>.
\<close>

theorem advanced_longest_prefix_counterexample:
  "fst (get_controllers env_gap init_state ''R'') = Inr 0
   \<and> ''R.a.b'' \<in> heap (snd (get_controllers env_gap init_state ''R'')) 0
   \<and> ''R.a.b.c'' \<notin> heap (snd (get_controllers env_gap init_state ''R'')) 0
   \<and> path_args (request call_abc) = [''a'', ''b'', ''c'']
   \<and> (case fst (get_controller_info_advanced env_gap call_abc init_state) of
        Inr d \<Rightarrow> d_module_name d = ''R'' \<and> d_module_name d \<noteq> ''R.a.b''
                \<and> d_args d = [''a'', ''b'', ''c'']
      | Inl e \<Rightarrow> False)"
proof -
  have p: "path_args (request call_abc) = [''a'', ''b'', ''c'']"
    by (simp add: call_abc_def mk_call_def mk_request_def)
  show ?thesis using p by (simp add: eval_advanced_gap eval_gap)
qed

subsection \<open>Call.handle\<close>

text \<open>
  C2 (as amended). \<^verbatim>\<open>Call.handle\<close> lets no exception of the \<^verbatim>\<open>Exception\<close> hierarchy reach its
  caller: what leaves it is an exception from outside that hierarchy, raised in the \<^verbatim>\<open>try\<close>
  body and passed on unchanged. A \<open>CallError\<close> raised in the body gives a response with that
  exact code and the error as body; any other exception of the hierarchy gives one with code
  500 and the error as body; and a body that runs to its end gives the response it wrote.
\<close>

theorem handle_two_tier:
  "(\<forall>e. fst (handle ev c s) = Inl e \<longrightarrow>
        \<not> is_Exception e \<and> fst (handle_try ev c s) = Inl e)
   \<and> (\<forall>e. fst (handle_try ev c s) = Inl e \<and> \<not> is_Exception e \<longrightarrow>
        fst (handle ev c s) = Inl e)
   \<and> (\<forall>code m. fst (handle_try ev c s) = Inl (CallError code m) \<longrightarrow>
        (\<exists>res. fst (handle ev c s) = Inr res \<and> res_code res = code
              \<and> res_body res = ErrorBody (CallError code m)))
   \<and> (\<forall>e. fst (handle_try ev c s) = Inl e \<and> is_Exception e
           \<and> (\<forall>code m. e \<noteq> CallError code m) \<longrightarrow>
        (\<exists>res. fst (handle ev c s) = Inr res \<and> res_code res = 500
              \<and> res_body res = ErrorBody e))
   \<and> (fst (handle_try ev c s) = Inr () \<longrightarrow>
        fst (handle ev c s) = Inr (fst (snd (handle_try ev c s))))"
proof -
  obtain out res s' where t: "handle_try ev c s = (out, res, s')"
    by (cases "handle_try ev c s") auto
  show ?thesis
  proof (cases out)
    case (Inr u)
    with t show ?thesis by (simp add: handle_def)
  next
    case (Inl e)
    with t have h: "fst (handle ev c s) = handle_except e res"
      by (simp add: handle_def)
    show ?thesis
      using t Inl h by (cases e) auto
  qed
qed

lemma eval_one_controllers:
  "get_controllers (env_one outcome) init_state ''R'' =
     (Inr 0, \<lparr>module_cache = [''R'' \<mapsto> 0],
              heap = (\<lambda>r. {})(0 := {''R''}), next_ref = Suc 0\<rparr>)"
  by (simp add: get_controllers_def env_one_def mk_env_def mk_module_def init_state_def
      fnmatch_py_def startswith_def splitext_root_def)

lemma import_one_R:
  "import_module (env_one outcome) ''R'' =
     Inr (mk_module ''/srv/R'' [(''Default'', get_only outcome)])"
  by (simp add: env_one_def mk_env_def)

lemma eval_one_info:
  assumes "kind c = Call" and "controller_prefix c = ''R''" and "path_args (request c) = []"
  shows "get_controller_info (env_one outcome) c init_state =
     (Inr \<lparr>d_module_name = ''R'', d_class_name = ''Default'',
           d_module = mk_module ''/srv/R'' [(''Default'', get_only outcome)],
           d_class = get_only outcome, d_method = upper (req_method (request c)),
           d_args = [], d_kwargs = query_kwargs (request c)\<rparr>,
      snd (get_controllers (env_one outcome) init_state ''R''))"
  unfolding get_controller_info_def get_controller_info_advanced_def get_normalized_prefix_def
  using assms
  by (simp add: eval_one_controllers getattr_module_def import_one_R mk_module_def Let_def)

lemma call_root_simps:
  "kind call_root = Call" "controller_prefix call_root = ''R''"
  "path_args (request call_root) = []" "req_method (request call_root) = ''GET''"
  "req_path (request call_root) = ''/''" "response call_root = res0"
  "content_type call_root = ''application/json''"
  by (simp_all add: call_root_def mk_call_def mk_request_def)



lemma eval_one_try:
  "fst (handle_try (env_one outcome) call_root init_state) =
     (case outcome of Inl e \<Rightarrow> Inl e | Inr b \<Rightarrow> Inr ())"
  unfolding handle_try_def get_callback_info_def
  by (simp add: eval_one_info call_root_simps upper_GET get_only_def Let_def split: sum.splits)

theorem handle_two_tier_witness:
  "fst (handle_try (env_one (Inl (CallError 403 ''forbidden''))) call_root init_state)
     = Inl (CallError 403 ''forbidden'')
   \<and> (case fst (handle (env_one (Inl (CallError 403 ''forbidden''))) call_root init_state) of
        Inr res \<Rightarrow> res_code res = 403 \<and> res_body res = ErrorBody (CallError 403 ''forbidden'')
      | Inl e \<Rightarrow> False)
   \<and> fst (handle_try (env_one (Inl (TypeError ''bad''))) call_root init_state)
     = Inl (TypeError ''bad'')
   \<and> (case fst (handle (env_one (Inl (TypeError ''bad''))) call_root init_state) of
        Inr res \<Rightarrow> res_code res = 500 \<and> res_body res = ErrorBody (TypeError ''bad'')
      | Inl e \<Rightarrow> False)"
proof -
  have a: "fst (handle_try (env_one (Inl (CallError 403 ''forbidden''))) call_root init_state)
     = Inl (CallError 403 ''forbidden'')"
    by (simp add: eval_one_try)
  have b: "fst (handle_try (env_one (Inl (TypeError ''bad''))) call_root init_state)
     = Inl (TypeError ''bad'')"
    by (simp add: eval_one_try)
  from handle_two_tier[of "env_one (Inl (CallError 403 ''forbidden''))" call_root init_state] a
  have "\<exists>res. fst (handle (env_one (Inl (CallError 403 ''forbidden''))) call_root init_state)
            = Inr res \<and> res_code res = 403
          \<and> res_body res = ErrorBody (CallError 403 ''forbidden'')"
    by blast
  moreover
  from handle_two_tier[of "env_one (Inl (TypeError ''bad''))" call_root init_state] b
  have "\<exists>res. fst (handle (env_one (Inl (TypeError ''bad''))) call_root init_state)
            = Inr res \<and> res_code res = 500 \<and> res_body res = ErrorBody (TypeError ''bad'')"
    by simp
  ultimately show ?thesis using a b by auto
qed

text \<open>
  The claim as stated fails for an exception outside the \<^verbatim>\<open>Exception\<close> hierarchy: a
  controller that raises \<^verbatim>\<open>SystemExit\<close> makes \<^verbatim>\<open>handle\<close> raise it to its caller.
\<close>

theorem handle_never_raises_counterexample:
  "fst (handle (env_one (Inl (NonException ''SystemExit''))) call_root init_state)
     = Inl (NonException ''SystemExit'')"
proof -
  obtain out res s' where
    t: "handle_try (env_one (Inl (NonException ''SystemExit''))) call_root init_state
          = (out, res, s')"
    by (cases "handle_try (env_one (Inl (NonException ''SystemExit''))) call_root init_state")
       auto
  with eval_one_try[of "Inl (NonException ''SystemExit'')"]
  have "out = Inl (NonException ''SystemExit'')" by simp
  with t show ?thesis by (simp add: handle_def)
qed

subsection \<open>Call.get_callback_info\<close>









subsection \<open>Private segments, helper attributes and private directories\<close>

text \<open>
  The sibling \<^verbatim>\<open>get_controller_info_simple\<close> does reject a first path segment that begins
  with an underscore: it raises \<^verbatim>\<open>ValueError\<close> whatever the modules are, so before any import.
\<close>

lemma simple_raises_on_private:
  assumes "path_args (request c) = seg # rest" and "startswith seg ''_''"
  shows "get_controller_info_simple ev c = Inl (ValueError (seg @ '' is an invalid''))"
  using assms by (simp add: get_controller_info_simple_def Let_def)

lemma cap_private: "capitalize ''_private'' = ''_private''"
  by (simp add: capitalize_def upper_char_def lower_char_def)

lemma call_private_simps:
  "kind call_private = Call" "controller_prefix call_private = ''R''"
  "path_args (request call_private) = [''_private'']"
  "req_method (request call_private) = ''GET''"
  "req_path (request call_private) = ''/_private''" "response call_private = res0"
  "content_type call_private = ''application/json''"
  "query_kwargs (request call_private) = [(''q'', ''1'')]"
  by (simp_all add: call_private_def mk_call_def mk_request_def)

lemma eval_private_info:
  "get_controller_info (env_one (Inr ''ok'')) call_private init_state =
     (Inr \<lparr>d_module_name = ''R'', d_class_name = ''Default'',
           d_module = mk_module ''/srv/R'' [(''Default'', get_only (Inr ''ok''))],
           d_class = get_only (Inr ''ok''), d_method = ''GET'',
           d_args = [''_private''], d_kwargs = [(''q'', ''1'')]\<rparr>,
      snd (get_controllers (env_one (Inr ''ok'')) init_state ''R''))"
  unfolding get_controller_info_def get_controller_info_advanced_def get_normalized_prefix_def
  by (simp add: call_private_simps eval_one_controllers getattr_module_def import_one_R
      mk_module_def Let_def upper_GET cap_private)

text \<open>
  C5, at the request \<^verbatim>\<open>GET /_private\<close>: \<^verbatim>\<open>get_controller_info\<close> runs the advanced
  resolution, which has no check of the first segment. The request does not fail: it resolves
  to the controller \<^verbatim>\<open>Default\<close> of \<^verbatim>\<open>R\<close> with \<^verbatim>\<open>_private\<close> as positional argument,
  \<^verbatim>\<open>get_callback_info\<close> raises no 404, and \<^verbatim>\<open>handle\<close> answers with the value the controller
  returns and the code left at 200.
\<close>

theorem advanced_accepts_private_segment:
  "path_args (request call_private) = [''_private''] \<and> startswith ''_private'' ''_''
   \<and> (case fst (get_controller_info (env_one (Inr ''ok'')) call_private init_state) of
        Inr d \<Rightarrow> d_module_name d = ''R'' \<and> d_class_name d = ''Default''
                \<and> d_args d = [''_private'']
      | Inl e \<Rightarrow> False)
   \<and> \<not> isl (fst (get_callback_info (env_one (Inr ''ok'')) call_private init_state))
   \<and> (case fst (handle (env_one (Inr ''ok'')) call_private init_state) of
        Inr res \<Rightarrow> res_code res = 200 \<and> res_body res = ReturnValue ''ok''
      | Inl e \<Rightarrow> False)"
  unfolding handle_def handle_try_def get_callback_info_def
  by (simp add: eval_private_info call_private_simps get_only_def Let_def res0_def
      startswith_def)

lemma cap_nomodbar: "capitalize ''nomodbar'' = ''Nomodbar''"
  by (simp add: capitalize_def upper_char_def lower_char_def)

lemma eval_decoy_controllers:
  "get_controllers env_decoy init_state ''R'' =
     (Inr 0, \<lparr>module_cache = [''R'' \<mapsto> 0],
              heap = (\<lambda>r. {})(0 := {''R''}), next_ref = Suc 0\<rparr>)"
  by (simp add: get_controllers_def env_decoy_def mk_env_def mk_module_def init_state_def
      fnmatch_py_def startswith_def splitext_root_def)

lemma import_decoy_R:
  "import_module env_decoy ''R'' =
     Inr (mk_module ''/srv/R''
            [(''Default'', get_only (Inr ''ok'')),
             (''Nomodbar'',
              PyClass False
                (\<lambda>req res. (Inl (TypeError ''object() takes no parameters''), res)))])"
  by (simp add: env_decoy_def mk_env_def)

text \<open>
  C4, at the input of the repository's test \<^verbatim>\<open>test_no_match\<close>: the module of the prefix
  imports a helper \<^verbatim>\<open>Nomodbar\<close> that is no controller, and the path is \<^verbatim>\<open>/nomodbar\<close>. The code
  only asks whether the module has an attribute of that name: it selects \<^verbatim>\<open>Nomodbar\<close> as the
  controller and leaves no positional argument, where the claim (and the test) want
  \<^verbatim>\<open>Default\<close> and the argument \<^verbatim>\<open>nomodbar\<close>.
\<close>

theorem advanced_selects_decoy:
  "(case fst (get_controller_info_advanced env_decoy call_nomodbar init_state) of
      Inr d \<Rightarrow> d_class_name d = ''Nomodbar'' \<and> \<not> handler (d_class d) \<and> d_args d = []
    | Inl e \<Rightarrow> False)"
  unfolding get_controller_info_advanced_def get_normalized_prefix_def call_nomodbar_def
  by (simp add: eval_decoy_controllers mk_call_def mk_request_def cap_nomodbar
      getattr_module_def import_decoy_R mk_module_def)

text \<open>
  C6, at a package with a private and a hidden directory: the condition of the pruning line,
  \<^verbatim>\<open>d[0] != '.' or d[0] != '_'\<close>, holds for every name, so no directory is pruned, and the
  modules of both directories are in the set \<^verbatim>\<open>get_controllers\<close> returns.
\<close>

theorem get_controllers_keeps_private_dirs:
  "prune_dirs [''_private'', ''.hidden''] = Inr [''_private'', ''.hidden'']
   \<and> fst (get_controllers env_hidden init_state ''R'') = Inr 0
   \<and> heap (snd (get_controllers env_hidden init_state ''R'')) 0
       = {''R'', ''R._private.secret'', ''R..hidden.x''}"
  by (simp add: get_controllers_def env_hidden_def mk_env_def mk_module_def init_state_def
      fnmatch_py_def startswith_def splitext_root_def insert_commute)

subsection \<open>Failure actions of the route decorators\<close>

lemma lookup_handle_failure:
  "lookup_method Route ''handle_failure'' = Some Route_handle_failure"
  "lookup_method Path_route ''handle_failure'' = Some Route_handle_failure"
  "lookup_method Version ''handle_failure'' = Some Route_handle_failure"
  "lookup_method Param_route ''handle_failure'' = Some Param_route_handle_failure"
  by (simp_all add: class_namespace_def)

lemma handle_failure_eval:
  "handle_failure Route ctl =
     Some (CallError 405 (''Could not find a method to satisfy '' @ req_path (ctl_request ctl)))"
  "handle_failure Path_route ctl =
     Some (CallError 405 (''Could not find a method to satisfy '' @ req_path (ctl_request ctl)))"
  "handle_failure Version ctl =
     Some (CallError 405 (''Could not find a method to satisfy '' @ req_path (ctl_request ctl)))"
  "handle_failure Param_route ctl =
     Some (CallError 400 (''Could not find a method to satisfy '' @ req_path (ctl_request ctl)))"
  by (simp_all add: handle_failure_def lookup_handle_failure del: lookup_method.simps)

lemma select_none:
  "list_all (\<lambda>(d, p, a). \<not> p req) alts \<Longrightarrow> select_alternative req alts = None"
  by (induction alts) auto

text \<open>
  C8. The failure action of the generic \<^verbatim>\<open>route\<close> decorator raises a \<open>CallError\<close> with status
  405, and so do \<^verbatim>\<open>path_route\<close> and \<^verbatim>\<open>version\<close>, which inherit it; the one of \<^verbatim>\<open>param_route\<close>
  raises a \<open>CallError\<close> with status 400. When the predicate of every alternative fails, the
  selection ends in the failure action of the first alternative's decorator, and that error
  sets the status of the response.
\<close>

theorem route_failure_status:
  "handle_failure Route ctl =
     Some (CallError 405 (''Could not find a method to satisfy '' @ req_path (ctl_request ctl)))
   \<and> handle_failure Path_route ctl = handle_failure Route ctl
   \<and> handle_failure Version ctl = handle_failure Route ctl
   \<and> handle_failure Param_route ctl =
     Some (CallError 400 (''Could not find a method to satisfy '' @ req_path (ctl_request ctl)))
   \<and> (\<forall>d p a alts. list_all (\<lambda>(d, p, a). \<not> p (ctl_request ctl)) ((d, p, a) # alts) \<longrightarrow>
         route_dispatch ctl (d, p, a) alts = Inl (handle_failure d ctl))
   \<and> (\<forall>m res. handle_except (CallError 405 m) res
         = Inr (res\<lparr>res_code := 405, res_body := ErrorBody (CallError 405 m)\<rparr>)
       \<and> handle_except (CallError 400 m) res
         = Inr (res\<lparr>res_code := 400, res_body := ErrorBody (CallError 400 m)\<rparr>))"
proof -
  have "route_dispatch ctl (d, p, a) alts = Inl (handle_failure d ctl)"
    if "list_all (\<lambda>(d, p, a). \<not> p (ctl_request ctl)) ((d, p, a) # alts)"
    for d p and a :: 'a and alts
    using select_none[OF that] by (simp add: route_dispatch_def)
  then show ?thesis
    by (simp add: handle_failure_eval)
qed

theorem route_failure_status_witness:
  "list_all (\<lambda>(d, p, a). \<not> p (ctl_request ctl0)) (two_alternatives Route)
   \<and> route_dispatch ctl0 (hd (two_alternatives Route)) (tl (two_alternatives Route))
       = Inl (Some (CallError 405 ''Could not find a method to satisfy /''))
   \<and> route_dispatch ctl0 (hd (two_alternatives Param_route)) (tl (two_alternatives Param_route))
       = Inl (Some (CallError 400 ''Could not find a method to satisfy /''))"
proof -
  have a: "list_all (\<lambda>(d, p, a). \<not> p (ctl_request ctl0))
             ((Route, (\<lambda>req. length (path_args req) = 2), ''GET_1'') #
              [(Route, (\<lambda>req. length (path_args req) = 1), ''GET_2'')])"
    by (simp add: ctl0_def mk_request_def)
  have b: "list_all (\<lambda>(d, p, a). \<not> p (ctl_request ctl0))
             ((Param_route, (\<lambda>req. length (path_args req) = 2), ''GET_1'') #
              [(Param_route, (\<lambda>req. length (path_args req) = 1), ''GET_2'')])"
    by (simp add: ctl0_def mk_request_def)
  have p: "req_path (ctl_request ctl0) = ''/''" by (simp add: ctl0_def mk_request_def)
  from route_failure_status[of ctl0, where ?'a = string] a b p
  show ?thesis by (simp add: two_alternatives_def)
qed

subsection \<open>The version decorator\<close>

lemma lookup_version_members:
  "lookup_method Version ''decorate'' = Some Version_decorate_2"
  "lookup_method Version ''target'' = Some Version_target"
  by (simp_all add: class_namespace_def)

lemma unbound_names:
  "''req'' \<notin> set version_target_locals \<and> ''req'' \<notin> set module_globals"
  "''versions'' \<notin> set version_target_locals \<and> ''versions'' \<notin> set module_globals"
  "''slf'' \<notin> set version_target_locals \<and> ''slf'' \<notin> set module_globals"
  by (simp_all add: version_target_locals_def module_globals_def)

text \<open>
  C10. Whatever the builtins are, as long as they bind none of the names \<^verbatim>\<open>req\<close>,
  \<^verbatim>\<open>versions\<close> and \<^verbatim>\<open>slf\<close> (Python's do not), these names are unbound in \<^verbatim>\<open>version.target\<close>,
  and every call of it raises \<^verbatim>\<open>NameError\<close> at its first statement, whatever the rest of its
  body does. The body of the decorator defines \<^verbatim>\<open>decorate\<close> twice and the second definition is
  the one bound: applying the decorator replaces the function by the wrapper, which raises
  \<open>VersionError\<close> when the version of the request is not among the declared ones and calls
  the function otherwise; it never registers \<^verbatim>\<open>version.target\<close> as a predicate.
\<close>

theorem version_target_never_returns:
  assumes "''req'' \<notin> set builtins" and "''versions'' \<notin> set builtins"
    and "''slf'' \<notin> set builtins"
  shows "(\<forall>rest. version_target builtins rest
            = Inl (NameError ''global name req is not defined''))
       \<and> load_name version_target_locals builtins ''versions''
            = Inl (NameError ''global name versions is not defined'')
       \<and> load_name version_target_locals builtins ''slf''
            = Inl (NameError ''global name slf is not defined'')
       \<and> class_namespace (class_body Version) ''decorate'' = Some Version_decorate_2
       \<and> apply_decorator Version version_of func versions
            = Some (Wrapped (version_decorated version_of func versions))
       \<and> apply_decorator Version version_of func versions
            \<noteq> Some (By_predicate (Method_target Version_target))
       \<and> (\<forall>self. version_decorated version_of func versions self =
            (case version_of (ctl_request self) (ctl_content_type self) of
               None \<Rightarrow> Inl (VersionError None versions)
             | Some v \<Rightarrow> if v \<in> set versions then func self
                         else Inl (VersionError (Some v) versions)))"
proof -
  have t: "version_target builtins rest = Inl (NameError ''global name req is not defined'')"
    for rest
    using assms(1) unbound_names(1) by (simp add: version_target_def load_name_def)
  have v: "load_name version_target_locals builtins ''versions''
            = Inl (NameError ''global name versions is not defined'')"
    using assms(2) unbound_names(2) by (simp add: load_name_def)
  have s: "load_name version_target_locals builtins ''slf''
            = Inl (NameError ''global name slf is not defined'')"
    using assms(3) unbound_names(3) by (simp add: load_name_def)
  have n: "class_namespace (class_body Version) ''decorate'' = Some Version_decorate_2"
    by (simp add: class_namespace_def)
  have a: "apply_decorator Version version_of func versions
            = Some (Wrapped (version_decorated version_of func versions))"
    by (simp add: apply_decorator_def lookup_version_members del: lookup_method.simps)
  have d: "version_decorated version_of func versions self =
            (case version_of (ctl_request self) (ctl_content_type self) of
               None \<Rightarrow> Inl (VersionError None versions)
             | Some v \<Rightarrow> if v \<in> set versions then func self
                         else Inl (VersionError (Some v) versions))" for self
    by (simp add: version_decorated_def Let_def split: option.splits)
  from t v s n a d show ?thesis by simp
qed

theorem version_target_never_returns_witness:
  "''req'' \<notin> set used_builtins \<and> ''versions'' \<notin> set used_builtins
   \<and> ''slf'' \<notin> set used_builtins
   \<and> version_target used_builtins (\<lambda>req. Inr True)
       = Inl (NameError ''global name req is not defined'')"
proof -
  have a: "''req'' \<notin> set used_builtins" by (simp add: used_builtins_def)
  have b: "''versions'' \<notin> set used_builtins" by (simp add: used_builtins_def)
  have c: "''slf'' \<notin> set used_builtins" by (simp add: used_builtins_def)
  from version_target_never_returns[OF a b c] a b c show ?thesis by blast
qed

end
